theory Spec2Isabelle
  imports Complex_Main "HOL-Library.Sublist"
begin

section \<open>Data model (src/types/face.ts)\<close>

text \<open>
  JavaScript numbers are rendered as \<^typ>\<open>real\<close>: the arithmetic of the face-box deriver, of the
  hold timers and of the smoothing filters is read over the real numbers, without rounding.
  Record fields carry a prefix that names their record (\<open>pt_\<close>, \<open>box_\<close>, \<open>fs_\<close>, \<open>snap_\<close> and
  so on), because the source's field names \<open>x\<close>, \<open>y\<close>, \<open>width\<close>, \<open>height\<close>, \<open>score\<close> are shared
  between its types.
\<close>

record landmark =
  pt_x :: real
  pt_y :: real
  pt_z :: "real option"

record FaceBox =
  box_x :: real
  box_y :: real
  box_width :: real
  box_height :: real

record FrameSize =
  fs_width :: real
  fs_height :: real

text \<open>
  The components of a transformation matrix are the one place where the code asks whether a
  number is finite (\<open>Number.isFinite\<close>), so they keep the non-finite values of a JavaScript
  number apart from the real ones.
\<close>

datatype jsnum = Finite real | NaN | PosInfinity | NegInfinity

fun isFinite :: "jsnum \<Rightarrow> bool" where
  "isFinite (Finite v) = True"
| "isFinite NaN = False"
| "isFinite PosInfinity = False"
| "isFinite NegInfinity = False"

record blendshape =
  bs_name :: string
  bs_score :: real

record FaceSnapshot =
  snap_landmarks :: "landmark list"
  snap_matrix :: "jsnum list option"
  snap_blendshapes :: "blendshape list option"
  snap_timestamp :: real

section \<open>Face-box deriver (utils/face: computeFaceBox)\<close>

text \<open>The four running extremes of the min/max scan.\<close>

record extents =
  minX :: real
  minY :: real
  maxX :: real
  maxY :: real

text \<open>The values the scan starts from: \<open>minX = minY = 1\<close>, \<open>maxX = maxY = 0\<close>.\<close>

definition initExtents :: extents where
  "initExtents = \<lparr>minX = 1, minY = 1, maxX = 0, maxY = 0\<rparr>"

text \<open>One iteration of \<open>for (const pt of landmarks)\<close>: four independent conditional updates.\<close>

definition scanPoint :: "extents \<Rightarrow> landmark \<Rightarrow> extents" where
  "scanPoint e pt =
     \<lparr>minX = (if pt_x pt < minX e then pt_x pt else minX e),
      minY = (if pt_y pt < minY e then pt_y pt else minY e),
      maxX = (if pt_x pt > maxX e then pt_x pt else maxX e),
      maxY = (if pt_y pt > maxY e then pt_y pt else maxY e)\<rparr>"

definition scanLandmarks :: "landmark list \<Rightarrow> extents" where
  "scanLandmarks landmarks = foldl scanPoint initExtents landmarks"

text \<open>
  The box before padding: \<open>baseX\<close>, \<open>baseY\<close>, \<open>width\<close>, \<open>height\<close> of the source, with the
  horizontal extent reflected when \<open>mirrorX\<close> is set.
\<close>

definition baseBox :: "landmark list \<Rightarrow> real \<Rightarrow> real \<Rightarrow> bool \<Rightarrow> FaceBox" where
  "baseBox landmarks frameWidth frameHeight mirrorX =
     (let e = scanLandmarks landmarks;
          boxMinX = (if mirrorX then 1 - maxX e else minX e);
          boxMaxX = (if mirrorX then 1 - minX e else maxX e);
          baseX = boxMinX * frameWidth;
          baseY = minY e * frameHeight;
          width = (boxMaxX - boxMinX) * frameWidth;
          height = (maxY e - minY e) * frameHeight
      in \<lparr>box_x = baseX, box_y = baseY, box_width = width, box_height = height\<rparr>)"

definition computeFaceBox ::
  "landmark list \<Rightarrow> real \<Rightarrow> real \<Rightarrow> real \<Rightarrow> real \<Rightarrow> real \<Rightarrow> bool \<Rightarrow> FaceBox" where
  "computeFaceBox landmarks frameWidth frameHeight padX padY yShift mirrorX =
     (let b = baseBox landmarks frameWidth frameHeight mirrorX;
          padXSize = box_width b * padX;
          padYSize = box_height b * padY
      in \<lparr>box_x = box_x b - padXSize * 0.5,
          box_y = box_y b - padYSize * yShift,
          box_width = box_width b + padXSize,
          box_height = box_height b + padYSize\<rparr>)"

text \<open>The horizontal reflection \<open>x \<mapsto> 1 - x\<close> of one landmark.\<close>

definition mirrorLandmark :: "landmark \<Rightarrow> landmark" where
  "mirrorLandmark pt = pt\<lparr>pt_x := 1 - pt_x pt\<rparr>"

text \<open>
  Two scans are mirror images of each other when the horizontal extremes are exchanged under
  \<open>x \<mapsto> 1 - x\<close> and the vertical ones agree.
\<close>

definition mirroredExtents :: "extents \<Rightarrow> extents \<Rightarrow> bool" where
  "mirroredExtents e e' \<longleftrightarrow>
     minX e' = 1 - maxX e \<and> maxX e' = 1 - minX e \<and> minY e' = minY e \<and> maxY e' = maxY e"

text \<open>
  A small version of the regression fixture of the specification: one point at the centre and
  the four corner points \<open>(0.1, 0.1)\<close>, \<open>(0.9, 0.1)\<close>, \<open>(0.1, 0.9)\<close>, \<open>(0.9, 0.9)\<close>.
\<close>

definition fixtureLandmarks :: "landmark list" where
  "fixtureLandmarks =
     [\<lparr>pt_x = 0.5, pt_y = 0.5, pt_z = None\<rparr>,
      \<lparr>pt_x = 0.1, pt_y = 0.1, pt_z = None\<rparr>,
      \<lparr>pt_x = 0.9, pt_y = 0.1, pt_z = None\<rparr>,
      \<lparr>pt_x = 0.1, pt_y = 0.9, pt_z = None\<rparr>,
      \<lparr>pt_x = 0.9, pt_y = 0.9, pt_z = None\<rparr>]"

section \<open>Pose snapshot builder (CameraProcessor: buildFaceSnapshot)\<close>

text \<open>
  The detector's result as the code reads it. Every top-level field may be missing, since the
  code guards each access (\<open>!result.faceLandmarks\<close>, \<open>?.[0]\<close>). Of a raw landmark only
  \<open>x\<close>, \<open>y\<close>, \<open>z\<close> are read, of a category only \<open>categoryName\<close> and \<open>score\<close>.
\<close>

record NormalizedLandmark =
  nl_x :: real
  nl_y :: real
  nl_z :: real

record Category =
  categoryName :: string
  cat_score :: real

record Classifications =
  categories :: "Category list"

text \<open>
  A raw transformation matrix is a flat array (\<open>Array.isArray\<close>), an object with a \<open>data\<close>
  property holding the numbers, or anything else.
\<close>

datatype rawMatrix = FlatArray "jsnum list" | DataObject "jsnum list" | OtherValue

record FaceLandmarkerResult =
  faceLandmarks :: "NormalizedLandmark list list option"
  facialTransformationMatrixes :: "rawMatrix list option"
  faceBlendshapes :: "Classifications list option"

text \<open>\<open>xs?.[0]\<close>: the first element of an optional array, if there is one.\<close>

definition firstOf :: "'a list option \<Rightarrow> 'a option" where
  "firstOf xs = (case xs of None \<Rightarrow> None | Some [] \<Rightarrow> None | Some (v # _) \<Rightarrow> Some v)"

text \<open>The numbers of the raw matrix (\<open>rawData\<close> of the source), when it exposes any.\<close>

definition rawData :: "FaceLandmarkerResult \<Rightarrow> jsnum list option" where
  "rawData result =
     (case firstOf (facialTransformationMatrixes result) of
        Some (FlatArray a) \<Rightarrow> Some a
      | Some (DataObject d) \<Rightarrow> Some d
      | Some OtherValue \<Rightarrow> None
      | None \<Rightarrow> None)"

definition buildFaceSnapshot :: "FaceLandmarkerResult \<Rightarrow> real \<Rightarrow> FaceSnapshot option" where
  "buildFaceSnapshot result timestamp =
     (case faceLandmarks result of
        None \<Rightarrow> None
      | Some [] \<Rightarrow> None
      | Some (face # _) \<Rightarrow>
          (let landmarks = map (\<lambda>landmark.
                 \<lparr>pt_x = nl_x landmark, pt_y = nl_y landmark, pt_z = Some (nl_z landmark)\<rparr>) face;
               matrix = (case rawData result of
                   Some d \<Rightarrow> if length d \<ge> 16 then Some (take 16 d) else None
                 | None \<Rightarrow> None);
               blendshapes = map_option (\<lambda>c. map (\<lambda>category.
                 \<lparr>bs_name = categoryName category, bs_score = cat_score category\<rparr>) (categories c))
                 (firstOf (faceBlendshapes result))
           in Some \<lparr>snap_landmarks = landmarks, snap_matrix = matrix,
                    snap_blendshapes = blendshapes, snap_timestamp = timestamp\<rparr>))"

section \<open>Render loop: the effective snapshot and its hold (CameraProcessor: renderLoop)\<close>

text \<open>The feature flags and assets of the component that the frame code reads.\<close>

record props =
  enableFaceSwap :: bool
  enable3DAvatar :: bool
  enableBackgroundReplace :: bool
  mirrorCamera :: bool
  backgroundImage :: bool
  faceOverlayImage :: bool

text \<open>
  What one pass of the loop gets from outside: the video's \<open>currentTime\<close>, the clock
  (\<open>performance.now()\<close>) and what the detector would answer if asked.
\<close>

record frameInput =
  currentTime :: real
  startTimeMs :: real
  detectFace :: "FaceLandmarkerResult option"

record loopState =
  faceSnapshotRef :: "FaceSnapshot option"
  lastFaceResultTimeRef :: real
  lastVideoTimeRef :: real

definition faceHoldMs :: real where
  "faceHoldMs = 600"

text \<open>The snapshot that the detection of this frame yields, if any.\<close>

definition frameSnapshot :: "props \<Rightarrow> frameInput \<Rightarrow> FaceSnapshot option" where
  "frameSnapshot p inp =
     (let faceResult = (if enableFaceSwap p \<or> enable3DAvatar p then detectFace inp else None)
      in case faceResult of
           Some r \<Rightarrow> buildFaceSnapshot r (startTimeMs inp)
         | None \<Rightarrow> None)"

text \<open>The update of the effective snapshot: take the new one, or clear a stale one.\<close>

definition holdStep :: "props \<Rightarrow> frameInput \<Rightarrow> loopState \<Rightarrow> loopState" where
  "holdStep p inp st =
     (case frameSnapshot p inp of
        Some snapshot \<Rightarrow>
          st\<lparr>faceSnapshotRef := Some snapshot, lastFaceResultTimeRef := startTimeMs inp\<rparr>
      | None \<Rightarrow>
          if faceSnapshotRef st \<noteq> None \<and> \<not> enable3DAvatar p
             \<and> startTimeMs inp - lastFaceResultTimeRef st > faceHoldMs
          then st\<lparr>faceSnapshotRef := None\<rparr>
          else st)"

text \<open>
  One pass of the loop on a ready video: nothing happens unless the video's time has moved
  since the last processed frame.
\<close>

definition renderFrame :: "props \<Rightarrow> frameInput \<Rightarrow> loopState \<Rightarrow> loopState" where
  "renderFrame p inp st =
     (if currentTime inp \<noteq> lastVideoTimeRef st
      then holdStep p inp (st\<lparr>lastVideoTimeRef := currentTime inp\<rparr>)
      else st)"

text \<open>A run of the loop; each pass has the flags in force at that moment.\<close>

fun runFrames :: "(props \<times> frameInput) list \<Rightarrow> loopState \<Rightarrow> loopState" where
  "runFrames [] st = st"
| "runFrames ((p, inp) # rest) st = runFrames rest (renderFrame p inp st)"

text \<open>Every pass of the run sees a video time different from the one processed before it.\<close>

fun advances :: "real \<Rightarrow> (props \<times> frameInput) list \<Rightarrow> bool" where
  "advances t [] = True"
| "advances t ((p, inp) # rest) = (currentTime inp \<noteq> t \<and> advances (currentTime inp) rest)"

section \<open>Compositor (CameraProcessor: drawComposition)\<close>

text \<open>
  Drawing is an effect on a 2D context. A context is modelled by the sequence of calls made on
  it, in order; what the calls paint is the browser's business. The images a call can draw are
  the live video frame, the two uploaded images and the two offscreen canvases.
\<close>

datatype imageSource = Video | BackgroundImage | FaceOverlayImage | MaskCanvas | PersonCanvas

datatype drawOp =
    Save
  | Restore
  | ClearRect real real real real
  | Scale real real
  | Translate real real
  | SetFilter string
  | SetFillStyle string
  | SetGlobalCompositeOperation string
  | DrawImage imageSource real real real real
  | PutImageData "nat list" real real
  | BeginPath
  | Arc real real real real real
  | Fill

record canvas =
  cv_width :: real
  cv_height :: real
  cv_ops :: "drawOp list"

record MPMask =
  mask_width :: nat
  mask_height :: nat
  getAsFloat32Array :: "real list"
  getAsUint8Array :: "nat list"

record ImageSegmenterResult =
  confidenceMasks :: "MPMask list option"
  categoryMask :: "MPMask option"

text \<open>
  The compositor's own state: the call log of the visible canvas's context, the two lazily
  created offscreen canvases, the stored face box, and how many segmentation results have
  been released with \<open>close()\<close>.
\<close>

record compositor =
  ctx :: "drawOp list"
  maskCanvasRef :: "canvas option"
  personCanvasRef :: "canvas option"
  faceBoxRef :: "FaceBox option"
  closed :: nat

text \<open>
  \<open>ensureCanvas\<close>: create the canvas when the reference is empty (a new canvas element is
  300 by 150), then resize it when its size differs, which also resets what was drawn on it.
\<close>

definition ensureCanvas :: "canvas option \<Rightarrow> real \<Rightarrow> real \<Rightarrow> canvas" where
  "ensureCanvas r width height =
     (let c = (case r of None \<Rightarrow> \<lparr>cv_width = 300, cv_height = 150, cv_ops = []\<rparr> | Some c \<Rightarrow> c)
      in if cv_width c \<noteq> width \<or> cv_height c \<noteq> height
         then \<lparr>cv_width = width, cv_height = height, cv_ops = []\<rparr>
         else c)"

text \<open>\<open>Math.round\<close> on a real: the nearest integer, halves upwards.\<close>

definition mathRound :: "real \<Rightarrow> int" where
  "mathRound v = \<lfloor>v + 1/2\<rfloor>"

text \<open>The alpha byte of one mask value.\<close>

definition confidenceAlpha :: "real \<Rightarrow> nat" where
  "confidenceAlpha v = nat (mathRound (min 1 (max 0 v) * 255))"

definition categoryAlpha :: "nat \<Rightarrow> nat" where
  "categoryAlpha v = (if v > 0 then 255 else 0)"

text \<open>
  The pixel buffer written by the loop over \<open>maskData\<close>: opaque white with the mask as alpha,
  in a buffer of \<open>4 \<cdot> maskWidth \<cdot> maskHeight\<close> bytes that starts out as zeros and ignores
  writes beyond its end.
\<close>

definition maskPixels :: "nat \<Rightarrow> nat \<Rightarrow> nat list \<Rightarrow> nat list" where
  "maskPixels maskWidth maskHeight alphas =
     (let n = 4 * maskWidth * maskHeight
      in take n (concat (map (\<lambda>alpha. [255, 255, 255, alpha]) alphas) @ replicate n 0))"

text \<open>The mirror transform of the context.\<close>

definition mirrorOps :: "bool \<Rightarrow> real \<Rightarrow> drawOp list" where
  "mirrorOps mirror width = (if mirror then [Scale (-1) 1, Translate (- width) 0] else [])"

text \<open>
  The mask that the background layer would use: the first confidence mask, else the category
  mask; none when replacement has nothing to work with.
\<close>

definition segmentationMask :: "ImageSegmenterResult option \<Rightarrow> (MPMask \<times> bool) option" where
  "segmentationMask segmentation =
     (case segmentation of
        None \<Rightarrow> None
      | Some seg \<Rightarrow>
          (case confidenceMasks seg of
             Some (m # _) \<Rightarrow> Some (m, True)
           | _ \<Rightarrow> (case categoryMask seg of Some m \<Rightarrow> Some (m, False) | None \<Rightarrow> None)))"

text \<open>
  The background layer. \<open>maskCtx\<close> and \<open>personCtx\<close> say whether \<open>getContext('2d')\<close> gave a
  context for the two offscreen canvases.
\<close>

definition backgroundLayer ::
  "props \<Rightarrow> real \<Rightarrow> real \<Rightarrow> bool \<Rightarrow> bool \<Rightarrow> ImageSegmenterResult option \<Rightarrow> compositor \<Rightarrow> compositor" where
  "backgroundLayer p width height maskCtx personCtx segmentation st =
     (case (if enableBackgroundReplace p then segmentationMask segmentation else None) of
        Some (mpMask, isConfidenceMask) \<Rightarrow>
          (let maskWidth = mask_width mpMask;
               maskHeight = mask_height mpMask;
               maskCanvas = ensureCanvas (maskCanvasRef st) (real maskWidth) (real maskHeight);
               personCanvas = ensureCanvas (personCanvasRef st) width height;
               st1 = st\<lparr>maskCanvasRef := Some maskCanvas, personCanvasRef := Some personCanvas\<rparr>;
               st2 =
                 (if maskCtx \<and> personCtx then
                    (let alphas = (if isConfidenceMask
                           then map confidenceAlpha (getAsFloat32Array mpMask)
                           else map categoryAlpha (getAsUint8Array mpMask));
                         maskCanvas' = maskCanvas\<lparr>cv_ops := cv_ops maskCanvas
                           @ [PutImageData (maskPixels maskWidth maskHeight alphas) 0 0]\<rparr>;
                         background = (if backgroundImage p
                           then [DrawImage BackgroundImage 0 0 width height]
                           else [Save, SetFilter ''blur(12px)'', DrawImage Video 0 0 width height,
                                 Restore]);
                         personCanvas' = personCanvas\<lparr>cv_ops := cv_ops personCanvas
                           @ [ClearRect 0 0 (cv_width personCanvas) (cv_height personCanvas),
                              DrawImage Video 0 0 (cv_width personCanvas) (cv_height personCanvas),
                              SetGlobalCompositeOperation ''destination-in'',
                              DrawImage MaskCanvas 0 0 (cv_width personCanvas) (cv_height personCanvas),
                              SetGlobalCompositeOperation ''source-over'']\<rparr>
                     in st1\<lparr>maskCanvasRef := Some maskCanvas',
                            personCanvasRef := Some personCanvas',
                            ctx := ctx st1 @ background @ [DrawImage PersonCanvas 0 0 width height]\<rparr>)
                  else st1\<lparr>ctx := ctx st1 @ [DrawImage Video 0 0 width height]\<rparr>)
           in st2\<lparr>closed := closed st2 + 1\<rparr>)
      | None \<Rightarrow> st\<lparr>ctx := ctx st @ [DrawImage Video 0 0 width height]\<rparr>)"

text \<open>The face box of the face layer: derived only from a snapshot with a landmark.\<close>

definition faceLayerBox :: "props \<Rightarrow> real \<Rightarrow> real \<Rightarrow> FaceSnapshot option \<Rightarrow> FaceBox option" where
  "faceLayerBox p width height snapshot =
     (case snapshot of
        Some s \<Rightarrow>
          if length (snap_landmarks s) > 0
          then Some (computeFaceBox (snap_landmarks s) width height 0.2 0.4 0.3 (mirrorCamera p))
          else None
      | None \<Rightarrow> None)"

text \<open>The debug marker of one landmark.\<close>

definition landmarkMarker :: "real \<Rightarrow> real \<Rightarrow> landmark \<Rightarrow> drawOp list" where
  "landmarkMarker width height pt =
     [BeginPath, Arc (pt_x pt * width) (pt_y pt * height) 1.5 0 (2 * pi), Fill]"

text \<open>The calls of the face layer on the visible context.\<close>

definition faceLayerOps :: "props \<Rightarrow> real \<Rightarrow> real \<Rightarrow> FaceSnapshot option \<Rightarrow> drawOp list" where
  "faceLayerOps p width height snapshot =
     (case (if enableFaceSwap p then faceLayerBox p width height snapshot else None) of
        Some faceBox \<Rightarrow>
          if faceOverlayImage p
          then [DrawImage FaceOverlayImage (box_x faceBox) (box_y faceBox)
                  (box_width faceBox) (box_height faceBox)]
          else (case snapshot of
                  Some s \<Rightarrow> SetFillStyle ''rgba(0, 255, 0, 0.5)''
                            # concat (map (landmarkMarker width height) (snap_landmarks s))
                | None \<Rightarrow> [])
      | None \<Rightarrow> [])"

definition drawComposition ::
  "props \<Rightarrow> real \<Rightarrow> real \<Rightarrow> bool \<Rightarrow> bool \<Rightarrow> ImageSegmenterResult option \<Rightarrow> FaceSnapshot option
     \<Rightarrow> compositor \<Rightarrow> compositor" where
  "drawComposition p width height maskCtx personCtx segmentation snapshot st =
     (let st1 = st\<lparr>ctx := ctx st @ [Save, ClearRect 0 0 width height]
                   @ mirrorOps (mirrorCamera p) width\<rparr>;
          st2 = backgroundLayer p width height maskCtx personCtx segmentation st1;
          st3 = st2\<lparr>faceBoxRef := faceLayerBox p width height snapshot\<rparr>
      in st3\<lparr>ctx := ctx st3 @ faceLayerOps p width height snapshot @ [Restore]\<rparr>)"

text \<open>
  A direct draw of the source frame, in the words of the specification: the frame drawn once
  on the cleared canvas, inside the optional mirror transform.
\<close>

definition directDraw :: "bool \<Rightarrow> real \<Rightarrow> real \<Rightarrow> drawOp list" where
  "directDraw mirror width height =
     [Save, ClearRect 0 0 width height] @ mirrorOps mirror width
     @ [DrawImage Video 0 0 width height, Restore]"

section \<open>3D overlay (AvatarOverlay: AvatarModel, the body of useFrame)\<close>

text \<open>
  The scene-graph library is outside the repository. Its matrix and quaternion types are type
  parameters here, and the operations on them that the frame code calls are passed in:
  \<open>extractRotation\<close> stands for \<open>Matrix4.fromArray\<close> followed by \<open>extractRotation\<close>,
  \<open>multiplyMatrices a b\<close> for the product behind \<open>premultiply\<close> and \<open>multiply\<close>.
\<close>

record ('m, 'q) three =
  extractRotation :: "jsnum list \<Rightarrow> 'm"
  multiplyMatrices :: "'m \<Rightarrow> 'm \<Rightarrow> 'm"
  makeScale :: "real \<Rightarrow> real \<Rightarrow> real \<Rightarrow> 'm"
  setFromRotationMatrix :: "'m \<Rightarrow> 'q"
  slerp :: "'q \<Rightarrow> 'q \<Rightarrow> real \<Rightarrow> 'q"

text \<open>
  Modelled from the spec: \<open>THREE.MathUtils.lerp\<close>, which is library code and not in the
  repository. The specification calls it a simple linear interpolation towards the target
  value with a factor.
\<close>

definition lerp :: "real \<Rightarrow> real \<Rightarrow> real \<Rightarrow> real" where
  "lerp x y t = (1 - t) * x + t * y"

text \<open>
  Modelled from the spec: \<open>THREE.MathUtils.damp\<close>, which is library code and not in the
  repository. The specification calls it an exponential approach towards the target with a
  rate, over the elapsed time.
\<close>

definition damp :: "real \<Rightarrow> real \<Rightarrow> real \<Rightarrow> real \<Rightarrow> real" where
  "damp x y lambda dt = lerp x y (1 - exp (- lambda * dt))"

record vec3 =
  v_x :: real
  v_y :: real
  v_z :: real

text \<open>
  Modelled from the spec: \<open>THREE.Vector3.lerp\<close>, which is library code and not in the
  repository. The specification has the position smoothed towards the target position with a
  factor: the linear interpolation of each coordinate.
\<close>

definition vec3_lerp :: "vec3 \<Rightarrow> vec3 \<Rightarrow> real \<Rightarrow> vec3" where
  "vec3_lerp v target alpha =
     \<lparr>v_x = v_x v + (v_x target - v_x v) * alpha,
      v_y = v_y v + (v_y target - v_y v) * alpha,
      v_z = v_z v + (v_z target - v_z v) * alpha\<rparr>"

text \<open>The Euclidean distance of two positions.\<close>

definition vdist :: "vec3 \<Rightarrow> vec3 \<Rightarrow> real" where
  "vdist a b = sqrt ((v_x a - v_x b)\<^sup>2 + (v_y a - v_y b)\<^sup>2 + (v_z a - v_z b)\<^sup>2)"

text \<open>
  Quaternions, with the inner product of their four components. A rotation is a quaternion
  of norm 1, and \<open>q\<close> and \<open>- q\<close> are the same rotation; \<open>qangle\<close> is the angle between two
  rotations on the sphere of unit quaternions, between 0 and a right angle.
\<close>

record quat =
  q_x :: real
  q_y :: real
  q_z :: real
  q_w :: real

definition qdot :: "quat \<Rightarrow> quat \<Rightarrow> real" where
  "qdot a b = q_x a * q_x b + q_y a * q_y b + q_z a * q_z b + q_w a * q_w b"

definition qneg :: "quat \<Rightarrow> quat" where
  "qneg a = \<lparr>q_x = - q_x a, q_y = - q_y a, q_z = - q_z a, q_w = - q_w a\<rparr>"

definition qcombine :: "real \<Rightarrow> quat \<Rightarrow> real \<Rightarrow> quat \<Rightarrow> quat" where
  "qcombine ra a rb b =
     \<lparr>q_x = ra * q_x a + rb * q_x b, q_y = ra * q_y a + rb * q_y b,
      q_z = ra * q_z a + rb * q_z b, q_w = ra * q_w a + rb * q_w b\<rparr>"

definition qangle :: "quat \<Rightarrow> quat \<Rightarrow> real" where
  "qangle a b = arccos (min 1 \<bar>qdot a b\<bar>)"

text \<open>
  Modelled from the spec: \<open>THREE.Quaternion.slerp\<close>, which is library code and not in the
  repository. The specification calls it the spherical interpolation of a unit rotation
  towards the target orientation with a factor: the point at the fraction \<open>t\<close> of the shorter
  great arc from \<open>q\<close> to the target rotation, and \<open>q\<close> itself when the two already agree.
\<close>

definition sphericalInterpolation :: "quat \<Rightarrow> quat \<Rightarrow> real \<Rightarrow> quat" where
  "sphericalInterpolation q target t =
     (let target' = (if qdot q target < 0 then qneg target else target);
          theta = qangle q target
      in if sin theta = 0 then q
         else qcombine (sin ((1 - t) * theta) / sin theta) q (sin (t * theta) / sin theta) target')"

text \<open>
  The point at the angle \<open>phi\<close> from \<open>a\<close> on the great circle through \<open>a\<close> and \<open>e\<close>, for unit
  quaternions \<open>a\<close> and \<open>e\<close> at a right angle.
\<close>

definition arcPoint :: "quat \<Rightarrow> quat \<Rightarrow> real \<Rightarrow> quat" where
  "arcPoint a e phi = qcombine (cos phi) a (sin phi) e"

text \<open>The group that carries the model, and the mesh with the morph targets.\<close>

record 'q group =
  grp_visible :: bool
  grp_position :: vec3
  grp_scale :: real
  grp_quaternion :: 'q

record mesh =
  morphTargetDictionary :: "(string \<rightharpoonup> nat) option"
  morphTargetInfluences :: "(nat \<rightharpoonup> real) option"

text \<open>
  The references the component keeps between frames. \<open>morphTargetInfluences\<close> and
  \<open>blendshapeStateRef\<close> are read as finite maps: a JavaScript array or object written at a new
  index or key grows by that entry.
\<close>

record 'q avatarState =
  groupRef :: "'q group option"
  morphTargetMeshRef :: "mesh option"
  targetQuatRef :: 'q
  smoothQuatRef :: 'q
  hasRotationRef :: bool
  blendshapeStateRef :: "string \<rightharpoonup> real"
  lastFaceBoxRef :: "FaceBox option"
  lastFaceBoxTimeRef :: real
  smoothPositionRef :: vec3
  smoothScaleRef :: real
  hasPositionRef :: bool

record avatarProps =
  av_headScale :: real
  av_mirror :: bool
  av_enabled :: bool

text \<open>
  What one call of the frame callback reads from outside: the time since the previous call
  (\<open>delta\<close>, in seconds), the clock, the shared frame size and snapshot, and the size of the
  overlay's viewport.
\<close>

record tick =
  tk_delta :: real
  tk_now :: real
  tk_frame :: FrameSize
  tk_snapshot :: "FaceSnapshot option"
  tk_size :: FrameSize

definition rotationSmoothing :: real where "rotationSmoothing = 12"
definition positionSmoothing :: real where "positionSmoothing = 12"
definition scaleSmoothing :: real where "scaleSmoothing = 10"
definition blendshapeSmoothing :: real where "blendshapeSmoothing = 0.25"
definition eyeLookSmoothing :: real where "eyeLookSmoothing = 0.15"
definition eyeLookScale :: real where "eyeLookScale = 0.4"
definition faceBoxHoldMs :: real where "faceBoxHoldMs = 1500"
definition avatarPadX :: real where "avatarPadX = 0.28"
definition avatarPadY :: real where "avatarPadY = 0.55"
definition avatarShiftY :: real where "avatarShiftY = 0.45"
definition avatarOffsetY :: real where "avatarOffsetY = 0.08"

definition hideGroup :: "'q avatarState \<Rightarrow> 'q avatarState" where
  "hideGroup st = st\<lparr>groupRef := map_option (\<lambda>g. g\<lparr>grp_visible := False\<rparr>) (groupRef st)\<rparr>"

text \<open>The box derived in this frame: only from a snapshot with a landmark and a known frame size.\<close>

definition latestFaceBox :: "avatarProps \<Rightarrow> FrameSize \<Rightarrow> FaceSnapshot option \<Rightarrow> FaceBox option" where
  "latestFaceBox p frame snapshot =
     (case snapshot of
        Some s \<Rightarrow>
          if length (snap_landmarks s) > 0 \<and> fs_width frame \<noteq> 0 \<and> fs_height frame \<noteq> 0
          then Some (computeFaceBox (snap_landmarks s) (fs_width frame) (fs_height frame)
                       avatarPadX avatarPadY avatarShiftY (av_mirror p))
          else None
      | None \<Rightarrow> None)"

text \<open>The box used in this frame: the derived one, else the last known one while its hold lasts.\<close>

definition heldFaceBox :: "FaceBox option \<Rightarrow> real \<Rightarrow> 'q avatarState \<Rightarrow> FaceBox option" where
  "heldFaceBox latest t st =
     (case latest of
        Some b \<Rightarrow> Some b
      | None \<Rightarrow>
          if lastFaceBoxRef st \<noteq> None \<and> t - lastFaceBoxTimeRef st < faceBoxHoldMs
          then lastFaceBoxRef st
          else None)"

text \<open>The target position and scale of the group for a face box.\<close>

definition targetPos :: "tick \<Rightarrow> FaceBox \<Rightarrow> vec3" where
  "targetPos tk faceBox =
     (let scaleX = fs_width (tk_size tk) / fs_width (tk_frame tk);
          scaleY = fs_height (tk_size tk) / fs_height (tk_frame tk);
          boxCenterX = (box_x faceBox + box_width faceBox * 0.5) * scaleX;
          boxCenterY = (box_y faceBox + box_height faceBox * 0.5) * scaleY;
          posX = boxCenterX - fs_width (tk_size tk) * 0.5;
          posY = fs_height (tk_size tk) * 0.5 - boxCenterY
                   + box_height faceBox * scaleY * avatarOffsetY
      in \<lparr>v_x = posX, v_y = posY, v_z = 0\<rparr>)"

definition boxScale :: "avatarProps \<Rightarrow> tick \<Rightarrow> FaceBox \<Rightarrow> real" where
  "boxScale p tk faceBox =
     (let scaleX = fs_width (tk_size tk) / fs_width (tk_frame tk);
          scaleY = fs_height (tk_size tk) / fs_height (tk_frame tk)
      in max (box_width faceBox * scaleX) (box_height faceBox * scaleY) * av_headScale p)"

text \<open>Position and scale: snap on the first frame, smooth afterwards.\<close>

definition smoothPlacement :: "avatarProps \<Rightarrow> tick \<Rightarrow> FaceBox \<Rightarrow> 'q avatarState \<Rightarrow> 'q avatarState" where
  "smoothPlacement p tk faceBox st =
     (let st1 = st\<lparr>groupRef := map_option (\<lambda>g. g\<lparr>grp_visible := True\<rparr>) (groupRef st)\<rparr>;
          st2 =
            (if \<not> hasPositionRef st1
             then st1\<lparr>smoothPositionRef := targetPos tk faceBox,
                      smoothScaleRef := boxScale p tk faceBox,
                      hasPositionRef := True\<rparr>
             else (let alpha = 1 - exp (- positionSmoothing * tk_delta tk)
                   in st1\<lparr>smoothPositionRef :=
                              vec3_lerp (smoothPositionRef st1) (targetPos tk faceBox) alpha,
                            smoothScaleRef :=
                              damp (smoothScaleRef st1) (boxScale p tk faceBox) scaleSmoothing
                                (tk_delta tk)\<rparr>))
      in st2\<lparr>groupRef := map_option
                (\<lambda>g. g\<lparr>grp_position := smoothPositionRef st2, grp_scale := smoothScaleRef st2\<rparr>)
                (groupRef st2)\<rparr>)"

text \<open>The matrix check: at least 16 components, the first 16 of them finite.\<close>

definition hasValidMatrix :: "jsnum list option \<Rightarrow> bool" where
  "hasValidMatrix matrixData =
     (case matrixData of
        Some m \<Rightarrow> length m \<ge> 16 \<and> list_all isFinite (take 16 m)
      | None \<Rightarrow> False)"

definition rotationTarget :: "('m, 'q) three \<Rightarrow> avatarProps \<Rightarrow> jsnum list \<Rightarrow> 'q" where
  "rotationTarget lib p m =
     (let rotationMatrix = extractRotation lib m;
          mirrorMatrix = makeScale lib (-1) 1 1;
          rotationMatrix' =
            (if av_mirror p
             then multiplyMatrices lib (multiplyMatrices lib mirrorMatrix rotationMatrix) mirrorMatrix
             else rotationMatrix)
      in setFromRotationMatrix lib rotationMatrix')"

text \<open>Rotation: only on a valid matrix; snap on the first one, slerp afterwards.\<close>

definition smoothRotation ::
  "('m, 'q) three \<Rightarrow> avatarProps \<Rightarrow> tick \<Rightarrow> 'q avatarState \<Rightarrow> 'q avatarState" where
  "smoothRotation lib p tk st =
     (let matrixData = (case tk_snapshot tk of Some s \<Rightarrow> snap_matrix s | None \<Rightarrow> None)
      in case (if hasValidMatrix matrixData then matrixData else None) of
           Some m \<Rightarrow>
             (let targetQuat = rotationTarget lib p m;
                  st1 = st\<lparr>targetQuatRef := targetQuat\<rparr>;
                  st2 =
                    (if \<not> hasRotationRef st1
                     then st1\<lparr>smoothQuatRef := targetQuat, hasRotationRef := True\<rparr>
                     else (let alpha = 1 - exp (- rotationSmoothing * tk_delta tk)
                           in st1\<lparr>smoothQuatRef := slerp lib (smoothQuatRef st1) targetQuat alpha\<rparr>))
              in st2\<lparr>groupRef := map_option (\<lambda>g. g\<lparr>grp_quaternion := smoothQuatRef st2\<rparr>)
                        (groupRef st2)\<rparr>)
         | None \<Rightarrow> st)"

text \<open>One iteration of \<open>shapes.forEach\<close> on the mesh \<open>mesh\<close>.\<close>

definition applyShape :: "'q avatarState \<Rightarrow> blendshape \<Rightarrow> 'q avatarState" where
  "applyShape st shape =
     (case morphTargetMeshRef st of
        None \<Rightarrow> st
      | Some mesh \<Rightarrow>
          (case (case morphTargetDictionary mesh of
                   Some dict \<Rightarrow> dict (bs_name shape) | None \<Rightarrow> None) of
             None \<Rightarrow> st
           | Some index \<Rightarrow>
               (case morphTargetInfluences mesh of
                  None \<Rightarrow> st
                | Some influences \<Rightarrow>
                    (let isEyeLook = prefix ''eyeLook'' (bs_name shape);
                         smooth = (if isEyeLook then eyeLookSmoothing else blendshapeSmoothing);
                         target = (if isEyeLook then bs_score shape * eyeLookScale
                                   else bs_score shape);
                         prev = (case blendshapeStateRef st (bs_name shape) of
                                   Some v \<Rightarrow> v | None \<Rightarrow> 0);
                         next = lerp prev target smooth
                     in st\<lparr>blendshapeStateRef := (blendshapeStateRef st)(bs_name shape \<mapsto> next),
                           morphTargetMeshRef := Some (mesh\<lparr>morphTargetInfluences :=
                             Some (influences(index \<mapsto> min 1 (max 0 next)))\<rparr>)\<rparr>))))"

definition applyBlendshapes :: "FaceSnapshot option \<Rightarrow> 'q avatarState \<Rightarrow> 'q avatarState" where
  "applyBlendshapes snapshot st =
     (case snapshot of
        None \<Rightarrow> st
      | Some s \<Rightarrow>
          (case snap_blendshapes s of
             None \<Rightarrow> st
           | Some shapes \<Rightarrow>
               if length shapes > 0 \<and> morphTargetMeshRef st \<noteq> None
               then foldl applyShape st shapes
               else st))"

text \<open>The frame callback.\<close>

definition useFrame ::
  "('m, 'q) three \<Rightarrow> avatarProps \<Rightarrow> tick \<Rightarrow> 'q avatarState \<Rightarrow> 'q avatarState" where
  "useFrame lib p tk st =
     (if \<not> av_enabled p then hideGroup st
      else
        (let latest = latestFaceBox p (tk_frame tk) (tk_snapshot tk);
             st1 = (case latest of
                      Some b \<Rightarrow> st\<lparr>lastFaceBoxRef := Some b, lastFaceBoxTimeRef := tk_now tk\<rparr>
                    | None \<Rightarrow> st)
         in case heldFaceBox latest (tk_now tk) st1 of
              None \<Rightarrow> hideGroup st1
            | Some faceBox \<Rightarrow>
                if groupRef st1 = None \<or> fs_width (tk_frame tk) = 0 \<or> fs_height (tk_frame tk) = 0
                then hideGroup st1
                else applyBlendshapes (tk_snapshot tk)
                       (smoothRotation lib p tk (smoothPlacement p tk faceBox st1))))"

text \<open>Consecutive calls of the frame callback.\<close>

fun runTicks :: "('m, 'q) three \<Rightarrow> avatarProps \<Rightarrow> tick list \<Rightarrow> 'q avatarState \<Rightarrow> 'q avatarState" where
  "runTicks lib p [] st = st"
| "runTicks lib p (tk # tks) st = runTicks lib p tks (useFrame lib p tk st)"

text \<open>
  The face box that a call of the frame callback works with: the one derived in this frame,
  else the last known one while its hold lasts.
\<close>

definition frameFaceBox :: "avatarProps \<Rightarrow> tick \<Rightarrow> 'q avatarState \<Rightarrow> FaceBox option" where
  "frameFaceBox p t st =
     (case latestFaceBox p (tk_frame t) (tk_snapshot t) of
        Some b \<Rightarrow> Some b
      | None \<Rightarrow> heldFaceBox None (tk_now t) st)"

text \<open>The call gets as far as placing the group: it does not return early.\<close>

definition frameDrawn :: "avatarProps \<Rightarrow> tick \<Rightarrow> 'q avatarState \<Rightarrow> bool" where
  "frameDrawn p t st \<longleftrightarrow>
     av_enabled p \<and> groupRef st \<noteq> None \<and> fs_width (tk_frame t) \<noteq> 0
     \<and> fs_height (tk_frame t) \<noteq> 0 \<and> frameFaceBox p t st \<noteq> None"

text \<open>The target position of a call, and its target rotation, when it has one.\<close>

definition framePosition :: "avatarProps \<Rightarrow> tick \<Rightarrow> 'q avatarState \<Rightarrow> vec3 option" where
  "framePosition p t st =
     (if frameDrawn p t st then map_option (targetPos t) (frameFaceBox p t st) else None)"

definition frameRotation ::
  "('m, 'q) three \<Rightarrow> avatarProps \<Rightarrow> tick \<Rightarrow> 'q avatarState \<Rightarrow> 'q option" where
  "frameRotation lib p t st =
     (if frameDrawn p t st
      then (case tk_snapshot t of
              Some s \<Rightarrow>
                (case snap_matrix s of
                   Some m \<Rightarrow> if hasValidMatrix (Some m) then Some (rotationTarget lib p m) else None
                 | None \<Rightarrow> None)
            | None \<Rightarrow> None)
      else None)"

text \<open>
  Consecutive calls that all have the time step \<open>delta\<close> and the target position \<open>target\<close>,
  whatever else differs between them; and the same for a target rotation.
\<close>

fun positionRun ::
  "('m, 'q) three \<Rightarrow> avatarProps \<Rightarrow> real \<Rightarrow> vec3 \<Rightarrow> tick list \<Rightarrow> 'q avatarState \<Rightarrow> bool" where
  "positionRun lib p delta target [] st = True"
| "positionRun lib p delta target (t # ts) st =
     (tk_delta t = delta \<and> framePosition p t st = Some target
      \<and> positionRun lib p delta target ts (useFrame lib p t st))"

fun rotationRun ::
  "('m, 'q) three \<Rightarrow> avatarProps \<Rightarrow> real \<Rightarrow> 'q \<Rightarrow> tick list \<Rightarrow> 'q avatarState \<Rightarrow> bool" where
  "rotationRun lib p delta target [] st = True"
| "rotationRun lib p delta target (t # ts) st =
     (tk_delta t = delta \<and> frameRotation lib p t st = Some target
      \<and> rotationRun lib p delta target ts (useFrame lib p t st))"

section \<open>Observations and sample inputs\<close>

text \<open>What position and scale smoothing leave behind: the smoothed values and the placement of the group.\<close>

definition placementOf :: "'q avatarState \<Rightarrow> vec3 \<times> real \<times> bool \<times> (bool \<times> vec3 \<times> real) option" where
  "placementOf st = (smoothPositionRef st, smoothScaleRef st, hasPositionRef st,
     map_option (\<lambda>g. (grp_visible g, grp_position g, grp_scale g)) (groupRef st))"

text \<open>The weight that the mesh holds at a morph-target index, if any.\<close>

definition influenceAt :: "'q avatarState \<Rightarrow> nat \<Rightarrow> real option" where
  "influenceAt st index =
     (case morphTargetMeshRef st of
        Some mesh \<Rightarrow> (case morphTargetInfluences mesh of
                        Some influences \<Rightarrow> influences index | None \<Rightarrow> None)
      | None \<Rightarrow> None)"

text \<open>A mesh with morph targets has been found, and \<open>dict\<close> is its dictionary.\<close>

definition meshReady :: "(string \<rightharpoonup> nat) \<Rightarrow> 'q avatarState \<Rightarrow> bool" where
  "meshReady dict st \<longleftrightarrow>
     (\<exists>mesh influences. morphTargetMeshRef st = Some mesh
        \<and> morphTargetDictionary mesh = Some dict
        \<and> morphTargetInfluences mesh = Some influences)"

text \<open>
  The smoothed weight in the words of the specification: linear interpolation from the prior
  state (0 when there is none) towards the score with factor 0.25, and for a gaze weight
  towards 0.4 times the score with factor 0.15.
\<close>

definition smoothedWeight :: "real option \<Rightarrow> blendshape \<Rightarrow> real" where
  "smoothedWeight prior shape =
     (let prev = (case prior of Some v \<Rightarrow> v | None \<Rightarrow> 0)
      in if prefix ''eyeLook'' (bs_name shape)
         then lerp prev (bs_score shape * 0.4) 0.15
         else lerp prev (bs_score shape) 0.25)"

text \<open>
  An instance of the library interface with rotations about a single axis, an angle standing
  for both the matrix and the quaternion. It serves to run the frame code on sample inputs.
\<close>

definition planarThree :: "(real, real) three" where
  "planarThree =
     \<lparr>extractRotation = (\<lambda>m. case m of Finite v # _ \<Rightarrow> v | _ \<Rightarrow> 0),
      multiplyMatrices = (\<lambda>a b. a + b),
      makeScale = (\<lambda>sx sy sz. 0),
      setFromRotationMatrix = (\<lambda>a. a),
      slerp = (\<lambda>q target t. q + (target - q) * t)\<rparr>"

definition sampleResult :: FaceLandmarkerResult where
  "sampleResult =
     \<lparr>faceLandmarks = Some [[\<lparr>nl_x = 0.25, nl_y = 0.5, nl_z = 0\<rparr>]],
      facialTransformationMatrixes = Some [DataObject (replicate 17 (Finite 1))],
      faceBlendshapes = Some [\<lparr>categories = [\<lparr>categoryName = ''jawOpen'', cat_score = 1.7\<rparr>]\<rparr>]\<rparr>"

definition sampleSnapshot :: FaceSnapshot where
  "sampleSnapshot =
     \<lparr>snap_landmarks = [\<lparr>pt_x = 0.25, pt_y = 0.5, pt_z = Some 0\<rparr>],
      snap_matrix = Some (replicate 16 (Finite 1)),
      snap_blendshapes = Some [\<lparr>bs_name = ''jawOpen'', bs_score = 1.7\<rparr>],
      snap_timestamp = 1000\<rparr>"

definition faceSwapProps :: props where
  "faceSwapProps =
     \<lparr>enableFaceSwap = True, enable3DAvatar = False, enableBackgroundReplace = False,
      mirrorCamera = True, backgroundImage = False, faceOverlayImage = True\<rparr>"

definition avatarModeProps :: props where
  "avatarModeProps =
     \<lparr>enableFaceSwap = False, enable3DAvatar = True, enableBackgroundReplace = False,
      mirrorCamera = True, backgroundImage = False, faceOverlayImage = False\<rparr>"

definition framePresent :: frameInput where
  "framePresent = \<lparr>currentTime = 1, startTimeMs = 1000, detectFace = Some sampleResult\<rparr>"

definition frameAbsent :: "real \<Rightarrow> real \<Rightarrow> frameInput" where
  "frameAbsent videoTime clock = \<lparr>currentTime = videoTime, startTimeMs = clock, detectFace = None\<rparr>"

text \<open>The references as the component creates them.\<close>

definition initialLoop :: loopState where
  "initialLoop = \<lparr>faceSnapshotRef = None, lastFaceResultTimeRef = 0, lastVideoTimeRef = -1\<rparr>"

definition initialCompositor :: compositor where
  "initialCompositor =
     \<lparr>ctx = [], maskCanvasRef = None, personCanvasRef = None, faceBoxRef = None, closed = 0\<rparr>"

text \<open>A mounted overlay that has placed and oriented the model once.\<close>

definition sampleAvatar :: "real avatarState" where
  "sampleAvatar =
     \<lparr>groupRef = Some \<lparr>grp_visible = True, grp_position = \<lparr>v_x = 0, v_y = 0, v_z = 0\<rparr>,
                        grp_scale = 1, grp_quaternion = 0.5\<rparr>,
      morphTargetMeshRef = Some \<lparr>morphTargetDictionary =
                                   Some [''jawOpen'' \<mapsto> 0, ''eyeLookUpLeft'' \<mapsto> 1],
                                 morphTargetInfluences = Some Map.empty\<rparr>,
      targetQuatRef = 0.5,
      smoothQuatRef = 0.5,
      hasRotationRef = True,
      blendshapeStateRef = [''jawOpen'' \<mapsto> 0.4],
      lastFaceBoxRef = Some \<lparr>box_x = 100, box_y = 100, box_width = 200, box_height = 200\<rparr>,
      lastFaceBoxTimeRef = 1000,
      smoothPositionRef = \<lparr>v_x = 0, v_y = 0, v_z = 0\<rparr>,
      smoothScaleRef = 1,
      hasPositionRef = True\<rparr>"

definition sampleAvatarProps :: avatarProps where
  "sampleAvatarProps = \<lparr>av_headScale = 1.15, av_mirror = True, av_enabled = True\<rparr>"

definition sampleTick :: "FaceSnapshot option \<Rightarrow> real \<Rightarrow> tick" where
  "sampleTick snapshot clock =
     \<lparr>tk_delta = 1/60, tk_now = clock, tk_frame = \<lparr>fs_width = 640, fs_height = 480\<rparr>,
      tk_snapshot = snapshot, tk_size = \<lparr>fs_width = 1280, fs_height = 960\<rparr>\<rparr>"

text \<open>A snapshot whose matrix starts with a NaN, with a gaze weight among its blendshapes.\<close>

definition nanSnapshot :: FaceSnapshot where
  "nanSnapshot =
     \<lparr>snap_landmarks = fixtureLandmarks,
      snap_matrix = Some (NaN # replicate 15 (Finite 0)),
      snap_blendshapes = Some [\<lparr>bs_name = ''jawOpen'', bs_score = 0.8\<rparr>,
                               \<lparr>bs_name = ''eyeLookUpLeft'', bs_score = 0.5\<rparr>],
      snap_timestamp = 1000\<rparr>"

text \<open>
  An instance of the library interface on quaternions: every matrix is read as the identity
  rotation, and \<open>slerp\<close> is the spherical interpolation.
\<close>

definition identityThree :: "(quat, quat) three" where
  "identityThree =
     \<lparr>extractRotation = (\<lambda>m. \<lparr>q_x = 0, q_y = 0, q_z = 0, q_w = 1\<rparr>),
      multiplyMatrices = (\<lambda>a b. b),
      makeScale = (\<lambda>sx sy sz. \<lparr>q_x = 0, q_y = 0, q_z = 0, q_w = 1\<rparr>),
      setFromRotationMatrix = (\<lambda>a. a),
      slerp = sphericalInterpolation\<rparr>"

text \<open>A snapshot with a finite matrix.\<close>

definition validSnapshot :: FaceSnapshot where
  "validSnapshot = nanSnapshot\<lparr>snap_matrix := Some (replicate 16 (Finite 1))\<rparr>"

text \<open>A mounted overlay whose model is turned half a turn about the x axis.\<close>

definition turnedAvatar :: "quat avatarState" where
  "turnedAvatar =
     \<lparr>groupRef = Some \<lparr>grp_visible = True, grp_position = \<lparr>v_x = 0, v_y = 0, v_z = 0\<rparr>,
                        grp_scale = 1, grp_quaternion = \<lparr>q_x = 1, q_y = 0, q_z = 0, q_w = 0\<rparr>\<rparr>,
      morphTargetMeshRef = None,
      targetQuatRef = \<lparr>q_x = 0, q_y = 0, q_z = 0, q_w = 1\<rparr>,
      smoothQuatRef = \<lparr>q_x = 1, q_y = 0, q_z = 0, q_w = 0\<rparr>,
      hasRotationRef = True,
      blendshapeStateRef = Map.empty,
      lastFaceBoxRef = None,
      lastFaceBoxTimeRef = 0,
      smoothPositionRef = \<lparr>v_x = 0, v_y = 0, v_z = 0\<rparr>,
      smoothScaleRef = 1,
      hasPositionRef = True\<rparr>"

text \<open>The same overlay with the model tilted about the x axis, at the angle \<open>arccos 0.8\<close>.\<close>

definition tiltedAvatar :: "quat avatarState" where
  "tiltedAvatar = turnedAvatar\<lparr>smoothQuatRef := \<lparr>q_x = 0.6, q_y = 0, q_z = 0, q_w = 0.8\<rparr>\<rparr>"

text \<open>A later detection of the same still face: another record, with the same landmarks.\<close>

definition laterSnapshot :: FaceSnapshot where
  "laterSnapshot = validSnapshot\<lparr>snap_blendshapes := None, snap_timestamp := 1033\<rparr>"

section \<open>The scan computes clipped minima and maxima\<close>

lemma foldl_scanPoint_minX:
  "minX (foldl scanPoint e ps) = Min (insert (minX e) (pt_x ` set ps))"
proof (induction ps arbitrary: e)
  case Nil
  show ?case by simp
next
  case (Cons p ps)
  have "minX (scanPoint e p) = min (pt_x p) (minX e)"
    by (simp add: scanPoint_def min_def)
  moreover have "Min (insert (min (pt_x p) (minX e)) (pt_x ` set ps))
      = Min (insert (minX e) (insert (pt_x p) (pt_x ` set ps)))"
    by (cases "ps = []") (simp_all add: min.commute min.left_commute min.assoc)
  ultimately show ?case
    using Cons.IH [of "scanPoint e p"] by simp
qed

lemma foldl_scanPoint_minY:
  "minY (foldl scanPoint e ps) = Min (insert (minY e) (pt_y ` set ps))"
proof (induction ps arbitrary: e)
  case Nil
  show ?case by simp
next
  case (Cons p ps)
  have "minY (scanPoint e p) = min (pt_y p) (minY e)"
    by (simp add: scanPoint_def min_def)
  moreover have "Min (insert (min (pt_y p) (minY e)) (pt_y ` set ps))
      = Min (insert (minY e) (insert (pt_y p) (pt_y ` set ps)))"
    by (cases "ps = []") (simp_all add: min.commute min.left_commute min.assoc)
  ultimately show ?case
    using Cons.IH [of "scanPoint e p"] by simp
qed

lemma foldl_scanPoint_maxX:
  "maxX (foldl scanPoint e ps) = Max (insert (maxX e) (pt_x ` set ps))"
proof (induction ps arbitrary: e)
  case Nil
  show ?case by simp
next
  case (Cons p ps)
  have "maxX (scanPoint e p) = max (pt_x p) (maxX e)"
    by (simp add: scanPoint_def max_def)
  moreover have "Max (insert (max (pt_x p) (maxX e)) (pt_x ` set ps))
      = Max (insert (maxX e) (insert (pt_x p) (pt_x ` set ps)))"
    by (cases "ps = []") (simp_all add: max.commute max.left_commute max.assoc)
  ultimately show ?case
    using Cons.IH [of "scanPoint e p"] by simp
qed

lemma foldl_scanPoint_maxY:
  "maxY (foldl scanPoint e ps) = Max (insert (maxY e) (pt_y ` set ps))"
proof (induction ps arbitrary: e)
  case Nil
  show ?case by simp
next
  case (Cons p ps)
  have "maxY (scanPoint e p) = max (pt_y p) (maxY e)"
    by (simp add: scanPoint_def max_def)
  moreover have "Max (insert (max (pt_y p) (maxY e)) (pt_y ` set ps))
      = Max (insert (maxY e) (insert (pt_y p) (pt_y ` set ps)))"
    by (cases "ps = []") (simp_all add: max.commute max.left_commute max.assoc)
  ultimately show ?case
    using Cons.IH [of "scanPoint e p"] by simp
qed

lemma scanLandmarks_Min_Max:
  assumes "p \<in> set ps" "0 \<le> pt_x p" "pt_x p \<le> 1" "0 \<le> pt_y p" "pt_y p \<le> 1"
  shows "scanLandmarks ps =
     \<lparr>minX = Min (pt_x ` set ps), minY = Min (pt_y ` set ps),
      maxX = Max (pt_x ` set ps), maxY = Max (pt_y ` set ps)\<rparr>"
proof -
  have ne: "pt_x ` set ps \<noteq> {}" "pt_y ` set ps \<noteq> {}"
    using assms(1) by auto
  have "Min (pt_x ` set ps) \<le> pt_x p" "Min (pt_y ` set ps) \<le> pt_y p"
    "pt_x p \<le> Max (pt_x ` set ps)" "pt_y p \<le> Max (pt_y ` set ps)"
    using assms(1) by simp_all
  then have "Min (pt_x ` set ps) \<le> 1" "Min (pt_y ` set ps) \<le> 1"
    "0 \<le> Max (pt_x ` set ps)" "0 \<le> Max (pt_y ` set ps)"
    using assms(2-5) by linarith+
  then have "minX (scanLandmarks ps) = Min (pt_x ` set ps)"
    "minY (scanLandmarks ps) = Min (pt_y ` set ps)"
    "maxX (scanLandmarks ps) = Max (pt_x ` set ps)"
    "maxY (scanLandmarks ps) = Max (pt_y ` set ps)"
    using ne
    by (simp_all add: scanLandmarks_def initExtents_def foldl_scanPoint_minX
        foldl_scanPoint_minY foldl_scanPoint_maxX foldl_scanPoint_maxY min_absorb2 max_absorb2)
  then show ?thesis by simp
qed

section \<open>Face-box deriver: exact extents\<close>

text \<open>
  Claim C2. For a landmark sequence that holds a point with both coordinates in \<open>[0, 1]\<close>,
  \<open>computeFaceBox\<close> with \<open>mirrorX = false\<close> computes, before padding, exactly the
  minimum and maximum of the landmark coordinates scaled to pixels:
  \<open>x = min x\<^sub>i \<cdot> frameWidth\<close>, \<open>y = min y\<^sub>i \<cdot> frameHeight\<close>,
  \<open>width = (max x\<^sub>i - min x\<^sub>i) \<cdot> frameWidth\<close>, \<open>height = (max y\<^sub>i - min y\<^sub>i) \<cdot> frameHeight\<close>;
  the returned box is this base box with the padding applied to it. Nothing is required of the
  frame size, of the paddings or of the shift.
\<close>

theorem computeFaceBox_unmirrored_extents:
  assumes "p \<in> set landmarks" "0 \<le> pt_x p" "pt_x p \<le> 1" "0 \<le> pt_y p" "pt_y p \<le> 1"
  shows "baseBox landmarks frameWidth frameHeight False =
      \<lparr>box_x = Min (pt_x ` set landmarks) * frameWidth,
       box_y = Min (pt_y ` set landmarks) * frameHeight,
       box_width = (Max (pt_x ` set landmarks) - Min (pt_x ` set landmarks)) * frameWidth,
       box_height = (Max (pt_y ` set landmarks) - Min (pt_y ` set landmarks)) * frameHeight\<rparr>
    \<and> computeFaceBox landmarks frameWidth frameHeight padX padY yShift False =
      (let b = baseBox landmarks frameWidth frameHeight False
       in \<lparr>box_x = box_x b - box_width b * padX * 0.5,
           box_y = box_y b - box_height b * padY * yShift,
           box_width = box_width b + box_width b * padX,
           box_height = box_height b + box_height b * padY\<rparr>)"
  using scanLandmarks_Min_Max [OF assms]
  by (simp add: baseBox_def computeFaceBox_def Let_def)

theorem computeFaceBox_unmirrored_extents_witness:
  "\<lparr>pt_x = 0.5, pt_y = 0.5, pt_z = None\<rparr> \<in> set fixtureLandmarks
   \<and> baseBox fixtureLandmarks 640 480 False =
      \<lparr>box_x = 64, box_y = 48, box_width = 512, box_height = 384\<rparr>
   \<and> computeFaceBox fixtureLandmarks 640 480 0.2 0.4 0.3 False =
      \<lparr>box_x = 12.8, box_y = 1.92, box_width = 614.4, box_height = 537.6\<rparr>"
  using computeFaceBox_unmirrored_extents
    [of "\<lparr>pt_x = 0.5, pt_y = 0.5, pt_z = None\<rparr>" fixtureLandmarks 640 480 "0.2" "0.4" "0.3"]
  by (simp add: fixtureLandmarks_def Let_def)

section \<open>Face-box deriver: mirror equivalence\<close>

lemma mirroredExtents_scanPoint:
  "mirroredExtents e e' \<Longrightarrow> mirroredExtents (scanPoint e pt) (scanPoint e' (mirrorLandmark pt))"
  by (auto simp: mirroredExtents_def scanPoint_def mirrorLandmark_def)

lemma mirroredExtents_foldl:
  "mirroredExtents e e' \<Longrightarrow>
   mirroredExtents (foldl scanPoint e ps) (foldl scanPoint e' (map mirrorLandmark ps))"
  by (induction ps arbitrary: e e') (simp_all add: mirroredExtents_scanPoint)

lemma mirroredExtents_scanLandmarks:
  "mirroredExtents (scanLandmarks ps) (scanLandmarks (map mirrorLandmark ps))"
  unfolding scanLandmarks_def
  by (rule mirroredExtents_foldl) (simp add: mirroredExtents_def initExtents_def)

lemma baseBox_mirror:
  "baseBox (map mirrorLandmark ps) fw fh False = baseBox ps fw fh True"
  using mirroredExtents_scanLandmarks [of ps]
  by (simp add: baseBox_def Let_def mirroredExtents_def)

text \<open>
  Claim C3. Mirror equivalence: for every landmark sequence (the empty one included) and all
  frame sizes, paddings and shifts, \<open>computeFaceBox\<close> on the horizontally mirrored landmarks
  (each \<open>x\<close> replaced by \<open>1 - x\<close>) with \<open>mirrorX = false\<close> returns the same box as
  \<open>computeFaceBox\<close> on the original landmarks with \<open>mirrorX = true\<close>.
\<close>

theorem computeFaceBox_mirror_equivalence:
  "computeFaceBox (map mirrorLandmark landmarks) frameWidth frameHeight padX padY yShift False
   = computeFaceBox landmarks frameWidth frameHeight padX padY yShift True"
  by (simp add: computeFaceBox_def baseBox_mirror)

section \<open>Pose snapshot builder: contract\<close>

lemma buildFaceSnapshot_None:
  "buildFaceSnapshot result timestamp = None
     \<longleftrightarrow> faceLandmarks result = None \<or> faceLandmarks result = Some []"
  by (simp add: buildFaceSnapshot_def Let_def split: option.splits list.splits)

lemma buildFaceSnapshot_matrix:
  assumes "buildFaceSnapshot result timestamp = Some snapshot"
  shows "snap_matrix snapshot =
     (case rawData result of
        Some d \<Rightarrow> if 16 \<le> length d then Some (take 16 d) else None
      | None \<Rightarrow> None)"
  using assms
  by (auto simp: buildFaceSnapshot_def Let_def split: option.splits list.splits)

lemma buildFaceSnapshot_blendshapes:
  assumes "buildFaceSnapshot result timestamp = Some snapshot"
  shows "snap_blendshapes snapshot =
     map_option (\<lambda>c. map (\<lambda>category.
         \<lparr>bs_name = categoryName category, bs_score = cat_score category\<rparr>) (categories c))
       (firstOf (faceBlendshapes result))"
  using assms
  by (auto simp: buildFaceSnapshot_def Let_def split: option.splits list.splits)

lemma buildFaceSnapshot_sample: "buildFaceSnapshot sampleResult 1000 = Some sampleSnapshot"
  by (simp add: buildFaceSnapshot_def sampleResult_def sampleSnapshot_def rawData_def firstOf_def)

text \<open>
  Claim C6. \<open>buildFaceSnapshot\<close> returns no snapshot exactly when the result has no face
  landmarks (the field is missing or empty). Otherwise the snapshot's matrix is defined if and
  only if the raw matrix (a flat array, or an object with a \<open>data\<close> buffer) has at least 16
  numbers, and it is then the first 16 of them; the blendshapes carry the names and the scores
  of the first classification unchanged, and are missing when there is none.
\<close>

theorem buildFaceSnapshot_contract:
  "(buildFaceSnapshot result timestamp = None
      \<longleftrightarrow> faceLandmarks result = None \<or> faceLandmarks result = Some [])
   \<and> (\<forall>snapshot. buildFaceSnapshot result timestamp = Some snapshot \<longrightarrow>
        (snap_matrix snapshot \<noteq> None \<longleftrightarrow> (\<exists>d. rawData result = Some d \<and> 16 \<le> length d))
        \<and> (\<forall>d. rawData result = Some d \<and> 16 \<le> length d
               \<longrightarrow> snap_matrix snapshot = Some (take 16 d))
        \<and> (\<forall>c. firstOf (faceBlendshapes result) = Some c \<longrightarrow>
              (\<exists>shapes. snap_blendshapes snapshot = Some shapes
                 \<and> map bs_name shapes = map categoryName (categories c)
                 \<and> map bs_score shapes = map cat_score (categories c)))
        \<and> (firstOf (faceBlendshapes result) = None \<longrightarrow> snap_blendshapes snapshot = None))
   \<and> (\<forall>a. firstOf (facialTransformationMatrixes result) = Some (FlatArray a)
          \<longrightarrow> rawData result = Some a)
   \<and> (\<forall>d. firstOf (facialTransformationMatrixes result) = Some (DataObject d)
          \<longrightarrow> rawData result = Some d)
   \<and> (firstOf (facialTransformationMatrixes result) = Some OtherValue
        \<or> firstOf (facialTransformationMatrixes result) = None \<longrightarrow> rawData result = None)"
proof (intro conjI allI impI)
  show "buildFaceSnapshot result timestamp = None
      \<longleftrightarrow> faceLandmarks result = None \<or> faceLandmarks result = Some []"
    by (rule buildFaceSnapshot_None)
next
  fix snapshot
  assume b: "buildFaceSnapshot result timestamp = Some snapshot"
  show "snap_matrix snapshot \<noteq> None \<longleftrightarrow> (\<exists>d. rawData result = Some d \<and> 16 \<le> length d)"
    by (simp add: buildFaceSnapshot_matrix [OF b] split: option.splits)
next
  fix snapshot d
  assume b: "buildFaceSnapshot result timestamp = Some snapshot"
    and d: "rawData result = Some d \<and> 16 \<le> length d"
  show "snap_matrix snapshot = Some (take 16 d)"
    using d by (simp add: buildFaceSnapshot_matrix [OF b])
next
  fix snapshot c
  assume b: "buildFaceSnapshot result timestamp = Some snapshot"
    and c: "firstOf (faceBlendshapes result) = Some c"
  show "\<exists>shapes. snap_blendshapes snapshot = Some shapes
                 \<and> map bs_name shapes = map categoryName (categories c)
                 \<and> map bs_score shapes = map cat_score (categories c)"
    by (simp add: buildFaceSnapshot_blendshapes [OF b] c comp_def)
next
  fix snapshot
  assume b: "buildFaceSnapshot result timestamp = Some snapshot"
    and c: "firstOf (faceBlendshapes result) = None"
  show "snap_blendshapes snapshot = None"
    by (simp add: buildFaceSnapshot_blendshapes [OF b] c)
next
  fix a
  assume "firstOf (facialTransformationMatrixes result) = Some (FlatArray a)"
  then show "rawData result = Some a"
    by (simp add: rawData_def)
next
  fix d
  assume "firstOf (facialTransformationMatrixes result) = Some (DataObject d)"
  then show "rawData result = Some d"
    by (simp add: rawData_def)
next
  assume "firstOf (facialTransformationMatrixes result) = Some OtherValue
        \<or> firstOf (facialTransformationMatrixes result) = None"
  then show "rawData result = None"
    by (auto simp: rawData_def)
qed

theorem buildFaceSnapshot_contract_witness:
  "buildFaceSnapshot sampleResult 1000 = Some sampleSnapshot
   \<and> rawData sampleResult = Some (replicate 17 (Finite 1))
   \<and> snap_matrix sampleSnapshot = Some (take 16 (replicate 17 (Finite 1)))
   \<and> firstOf (faceBlendshapes sampleResult)
        = Some \<lparr>categories = [\<lparr>categoryName = ''jawOpen'', cat_score = 1.7\<rparr>]\<rparr>
   \<and> map_option (map bs_score) (snap_blendshapes sampleSnapshot) = Some [1.7]
   \<and> buildFaceSnapshot (sampleResult\<lparr>faceLandmarks := Some []\<rparr>) 1000 = None"
  using buildFaceSnapshot_contract [of sampleResult 1000]
    buildFaceSnapshot_contract [of "sampleResult\<lparr>faceLandmarks := Some []\<rparr>" 1000]
    buildFaceSnapshot_sample
  by (simp add: sampleResult_def sampleSnapshot_def rawData_def firstOf_def)

section \<open>Render loop: the hold window of the 2D path\<close>

lemma renderFrame_present:
  assumes "frameSnapshot p inp = Some snapshot" "currentTime inp \<noteq> lastVideoTimeRef st"
  shows "renderFrame p inp st =
     st\<lparr>faceSnapshotRef := Some snapshot, lastFaceResultTimeRef := startTimeMs inp,
        lastVideoTimeRef := currentTime inp\<rparr>"
  using assms by (simp add: renderFrame_def holdStep_def)

lemma renderFrame_absent_2d:
  assumes "frameSnapshot p inp = None" "currentTime inp \<noteq> lastVideoTimeRef st"
    "\<not> enable3DAvatar p"
  shows "renderFrame p inp st =
     st\<lparr>faceSnapshotRef :=
          (if startTimeMs inp - lastFaceResultTimeRef st > faceHoldMs then None
           else faceSnapshotRef st),
        lastVideoTimeRef := currentTime inp\<rparr>"
  using assms by (cases "faceSnapshotRef st") (simp_all add: renderFrame_def holdStep_def)

text \<open>
  Frames without a detection, after a detection at \<open>t0\<close> and with the clock at \<open>t\<close>: the
  snapshot is there if and only if the last clock reading is at most the hold away from \<open>t0\<close>.
\<close>

lemma runFrames_absent_2d:
  assumes "\<forall>(p, inp) \<in> set later. \<not> enable3DAvatar p \<and> frameSnapshot p inp = None"
    and "sorted (t # map (\<lambda>f. startTimeMs (snd f)) later)"
    and "advances (lastVideoTimeRef st) later"
    and "lastFaceResultTimeRef st = t0"
    and "faceSnapshotRef st = (if t - t0 \<le> faceHoldMs then Some snapshot else None)"
  shows "lastFaceResultTimeRef (runFrames later st) = t0
     \<and> faceSnapshotRef (runFrames later st) =
         (if last (t # map (\<lambda>f. startTimeMs (snd f)) later) - t0 \<le> faceHoldMs
          then Some snapshot else None)"
  using assms
proof (induction later arbitrary: st t)
  case Nil
  then show ?case by simp
next
  case (Cons f later)
  obtain p inp where f: "f = (p, inp)" by (cases f)
  let ?st = "renderFrame p inp st"
  have flags: "\<not> enable3DAvatar p" and none: "frameSnapshot p inp = None"
    using Cons.prems(1) f by auto
  have adv: "currentTime inp \<noteq> lastVideoTimeRef st" "advances (currentTime inp) later"
    using Cons.prems(3) f by simp_all
  have le: "t \<le> startTimeMs inp"
    using Cons.prems(2) f by simp
  have step: "?st = st\<lparr>faceSnapshotRef :=
          (if startTimeMs inp - lastFaceResultTimeRef st > faceHoldMs then None
           else faceSnapshotRef st),
        lastVideoTimeRef := currentTime inp\<rparr>"
    by (rule renderFrame_absent_2d [OF none adv(1) flags])
  have 1: "\<forall>(p, inp) \<in> set later. \<not> enable3DAvatar p \<and> frameSnapshot p inp = None"
    using Cons.prems(1) by simp
  have 2: "sorted (startTimeMs inp # map (\<lambda>f. startTimeMs (snd f)) later)"
    using Cons.prems(2) f by simp
  have 3: "advances (lastVideoTimeRef ?st) later"
    using adv(2) by (simp add: step)
  have 4: "lastFaceResultTimeRef ?st = t0"
    using Cons.prems(4) by (simp add: step)
  have 5: "faceSnapshotRef ?st = (if startTimeMs inp - t0 \<le> faceHoldMs then Some snapshot else None)"
    using Cons.prems(4,5) le by (auto simp: step)
  show ?case
    using Cons.IH [OF 1 2 3 4 5] f by simp
qed

text \<open>
  Claim C1. With the 3D avatar disabled, a processed frame whose detection yields a snapshot
  makes it the effective snapshot and records the clock as its arrival time. Over any run of
  later processed frames that yield no snapshot (the clock not running backwards), the arrival
  time stays, and the effective snapshot after the last of them is that snapshot as long as
  the clock is at most 600 ms past the arrival, and null as soon as it is more than 600 ms
  past it: kept at a gap of exactly 600 ms, cleared at any larger gap.
\<close>

theorem hold_window_2d:
  assumes no3d: "\<not> enable3DAvatar p0"
    and present: "frameSnapshot p0 inp0 = Some snapshot"
    and absent: "\<forall>(p, inp) \<in> set later. \<not> enable3DAvatar p \<and> frameSnapshot p inp = None"
    and clock: "sorted (map (\<lambda>f. startTimeMs (snd f)) ((p0, inp0) # later))"
    and adv: "advances (lastVideoTimeRef st) ((p0, inp0) # later)"
  shows "faceSnapshotRef (renderFrame p0 inp0 st) = Some snapshot
     \<and> lastFaceResultTimeRef (renderFrame p0 inp0 st) = startTimeMs inp0
     \<and> lastFaceResultTimeRef (runFrames ((p0, inp0) # later) st) = startTimeMs inp0
     \<and> faceSnapshotRef (runFrames ((p0, inp0) # later) st) =
         (if startTimeMs (snd (last ((p0, inp0) # later))) - startTimeMs inp0 \<le> faceHoldMs
          then Some snapshot else None)"
proof -
  let ?st = "renderFrame p0 inp0 st"
  have adv0: "currentTime inp0 \<noteq> lastVideoTimeRef st" "advances (currentTime inp0) later"
    using adv by simp_all
  have step: "?st = st\<lparr>faceSnapshotRef := Some snapshot,
        lastFaceResultTimeRef := startTimeMs inp0, lastVideoTimeRef := currentTime inp0\<rparr>"
    by (rule renderFrame_present [OF present adv0(1)])
  have 2: "sorted (startTimeMs inp0 # map (\<lambda>f. startTimeMs (snd f)) later)"
    using clock by simp
  have 3: "advances (lastVideoTimeRef ?st) later"
    using adv0(2) by (simp add: step)
  have 4: "lastFaceResultTimeRef ?st = startTimeMs inp0"
    by (simp add: step)
  have 5: "faceSnapshotRef ?st =
      (if startTimeMs inp0 - startTimeMs inp0 \<le> faceHoldMs then Some snapshot else None)"
    by (simp add: step faceHoldMs_def)
  have last: "last (startTimeMs inp0 # map (\<lambda>f. startTimeMs (snd f)) later)
      = startTimeMs (snd (last ((p0, inp0) # later)))"
    by (cases "later = []") (simp_all add: last_map)
  have run: "runFrames ((p0, inp0) # later) st = runFrames later ?st"
    by simp
  note r = runFrames_absent_2d [OF absent 2 3 4 5, unfolded last]
  show ?thesis
  proof (intro conjI)
    show "faceSnapshotRef ?st = Some snapshot"
      by (simp add: step)
    show "lastFaceResultTimeRef ?st = startTimeMs inp0"
      by (rule 4)
    show "lastFaceResultTimeRef (runFrames ((p0, inp0) # later) st) = startTimeMs inp0"
      unfolding run using r by (rule conjunct1)
    show "faceSnapshotRef (runFrames ((p0, inp0) # later) st) =
         (if startTimeMs (snd (last ((p0, inp0) # later))) - startTimeMs inp0 \<le> faceHoldMs
          then Some snapshot else None)"
      unfolding run using r by (rule conjunct2)
  qed
qed

lemma frameSnapshot_samples:
  "frameSnapshot faceSwapProps framePresent = Some sampleSnapshot"
  "frameSnapshot faceSwapProps (frameAbsent v t) = None"
  by (simp_all add: frameSnapshot_def faceSwapProps_def framePresent_def frameAbsent_def
      buildFaceSnapshot_sample)

theorem hold_window_2d_witness:
  "\<not> enable3DAvatar faceSwapProps
   \<and> frameSnapshot faceSwapProps framePresent = Some sampleSnapshot
   \<and> faceSnapshotRef (runFrames [(faceSwapProps, framePresent),
         (faceSwapProps, frameAbsent 2 1599), (faceSwapProps, frameAbsent 3 1600)] initialLoop)
       = Some sampleSnapshot
   \<and> faceSnapshotRef (runFrames [(faceSwapProps, framePresent),
         (faceSwapProps, frameAbsent 2 1599), (faceSwapProps, frameAbsent 3 1600),
         (faceSwapProps, frameAbsent 4 1601)] initialLoop)
       = None"
  using hold_window_2d [of faceSwapProps framePresent sampleSnapshot
      "[(faceSwapProps, frameAbsent 2 1599), (faceSwapProps, frameAbsent 3 1600)]" initialLoop]
    hold_window_2d [of faceSwapProps framePresent sampleSnapshot
      "[(faceSwapProps, frameAbsent 2 1599), (faceSwapProps, frameAbsent 3 1600),
        (faceSwapProps, frameAbsent 4 1601)]" initialLoop]
    frameSnapshot_samples
  by (simp add: faceSwapProps_def framePresent_def frameAbsent_def initialLoop_def faceHoldMs_def)

section \<open>3D overlay: which step writes which reference\<close>

lemma applyShape_keeps:
  "groupRef (applyShape st sh) = groupRef st"
  "smoothQuatRef (applyShape st sh) = smoothQuatRef st"
  "targetQuatRef (applyShape st sh) = targetQuatRef st"
  "hasRotationRef (applyShape st sh) = hasRotationRef st"
  "smoothPositionRef (applyShape st sh) = smoothPositionRef st"
  "smoothScaleRef (applyShape st sh) = smoothScaleRef st"
  "hasPositionRef (applyShape st sh) = hasPositionRef st"
  "lastFaceBoxRef (applyShape st sh) = lastFaceBoxRef st"
  "lastFaceBoxTimeRef (applyShape st sh) = lastFaceBoxTimeRef st"
  by (simp_all add: applyShape_def Let_def split: option.splits)

lemma foldl_applyShape_keeps:
  "groupRef (foldl applyShape st shapes) = groupRef st"
  "smoothQuatRef (foldl applyShape st shapes) = smoothQuatRef st"
  "targetQuatRef (foldl applyShape st shapes) = targetQuatRef st"
  "hasRotationRef (foldl applyShape st shapes) = hasRotationRef st"
  "smoothPositionRef (foldl applyShape st shapes) = smoothPositionRef st"
  "smoothScaleRef (foldl applyShape st shapes) = smoothScaleRef st"
  "hasPositionRef (foldl applyShape st shapes) = hasPositionRef st"
  "lastFaceBoxRef (foldl applyShape st shapes) = lastFaceBoxRef st"
  "lastFaceBoxTimeRef (foldl applyShape st shapes) = lastFaceBoxTimeRef st"
  by (induction shapes arbitrary: st) (simp_all add: applyShape_keeps)

lemma applyBlendshapes_keeps:
  "groupRef (applyBlendshapes snapshot st) = groupRef st"
  "smoothQuatRef (applyBlendshapes snapshot st) = smoothQuatRef st"
  "targetQuatRef (applyBlendshapes snapshot st) = targetQuatRef st"
  "hasRotationRef (applyBlendshapes snapshot st) = hasRotationRef st"
  "smoothPositionRef (applyBlendshapes snapshot st) = smoothPositionRef st"
  "smoothScaleRef (applyBlendshapes snapshot st) = smoothScaleRef st"
  "hasPositionRef (applyBlendshapes snapshot st) = hasPositionRef st"
  "lastFaceBoxRef (applyBlendshapes snapshot st) = lastFaceBoxRef st"
  "lastFaceBoxTimeRef (applyBlendshapes snapshot st) = lastFaceBoxTimeRef st"
  by (simp_all add: applyBlendshapes_def foldl_applyShape_keeps split: option.splits)

lemma smoothPlacement_keeps:
  "smoothQuatRef (smoothPlacement p tk b st) = smoothQuatRef st"
  "targetQuatRef (smoothPlacement p tk b st) = targetQuatRef st"
  "hasRotationRef (smoothPlacement p tk b st) = hasRotationRef st"
  "map_option grp_quaternion (groupRef (smoothPlacement p tk b st))
     = map_option grp_quaternion (groupRef st)"
  "blendshapeStateRef (smoothPlacement p tk b st) = blendshapeStateRef st"
  "morphTargetMeshRef (smoothPlacement p tk b st) = morphTargetMeshRef st"
  by (simp_all add: smoothPlacement_def Let_def option.map_comp comp_def)

lemma smoothRotation_keeps:
  "blendshapeStateRef (smoothRotation lib p tk st) = blendshapeStateRef st"
  "morphTargetMeshRef (smoothRotation lib p tk st) = morphTargetMeshRef st"
  by (simp_all add: smoothRotation_def Let_def split: option.splits)

lemma hideGroup_keeps:
  "smoothQuatRef (hideGroup st) = smoothQuatRef st"
  "targetQuatRef (hideGroup st) = targetQuatRef st"
  "hasRotationRef (hideGroup st) = hasRotationRef st"
  "map_option grp_quaternion (groupRef (hideGroup st)) = map_option grp_quaternion (groupRef st)"
  "lastFaceBoxRef (hideGroup st) = lastFaceBoxRef st"
  by (simp_all add: hideGroup_def option.map_comp comp_def)

section \<open>Render loop: no hold expiry in 3D-avatar mode\<close>











section \<open>3D overlay: a non-finite matrix skips the rotation update\<close>

lemma hasValidMatrix_nonfinite:
  assumes "i < 16" "i < length m" "\<not> isFinite (m ! i)"
  shows "\<not> hasValidMatrix (Some m)"
proof
  assume "hasValidMatrix (Some m)"
  then have "list_all isFinite (take 16 m)"
    by (simp add: hasValidMatrix_def)
  moreover have "take 16 m ! i = m ! i" "i < length (take 16 m)"
    using assms(1,2) by simp_all
  ultimately have "isFinite (m ! i)"
    by (metis list_all_length)
  then show False using assms(3) by simp
qed

lemma smoothRotation_skip:
  assumes "tk_snapshot tk = Some s" "snap_matrix s = Some m" "\<not> hasValidMatrix (Some m)"
  shows "smoothRotation lib p tk st = st"
  using assms by (simp add: smoothRotation_def)

lemma placementOf_smoothRotation: "placementOf (smoothRotation lib p tk st) = placementOf st"
  by (simp add: placementOf_def smoothRotation_def Let_def option.map_comp comp_def
      split: option.splits)

lemma placementOf_applyBlendshapes: "placementOf (applyBlendshapes snapshot st) = placementOf st"
  by (simp add: placementOf_def applyBlendshapes_keeps)

lemma latestFaceBox_matrix:
  "latestFaceBox p frame (Some (s\<lparr>snap_matrix := mx\<rparr>)) = latestFaceBox p frame (Some s)"
  by (simp add: latestFaceBox_def)

lemma targetPos_snapshot: "targetPos (tk\<lparr>tk_snapshot := sn\<rparr>) b = targetPos tk b"
  by (simp add: targetPos_def)

lemma boxScale_snapshot: "boxScale p (tk\<lparr>tk_snapshot := sn\<rparr>) b = boxScale p tk b"
  by (simp add: boxScale_def)

lemma smoothPlacement_snapshot:
  "smoothPlacement p (tk\<lparr>tk_snapshot := sn\<rparr>) b st = smoothPlacement p tk b st"
  by (simp add: smoothPlacement_def Let_def targetPos_snapshot boxScale_snapshot)

lemma useFrame_placement_matrix:
  assumes "tk_snapshot tk = Some s"
  shows "placementOf (useFrame lib p (tk\<lparr>tk_snapshot := Some (s\<lparr>snap_matrix := mx\<rparr>)\<rparr>) st)
       = placementOf (useFrame lib p tk st)"
  using assms
  by (auto simp: useFrame_def Let_def latestFaceBox_matrix smoothPlacement_snapshot
      placementOf_smoothRotation placementOf_applyBlendshapes split: option.splits)

lemma useFrame_rotation_skip:
  assumes "tk_snapshot tk = Some s" "snap_matrix s = Some m" "\<not> hasValidMatrix (Some m)"
  shows "smoothQuatRef (useFrame lib p tk st) = smoothQuatRef st
     \<and> targetQuatRef (useFrame lib p tk st) = targetQuatRef st
     \<and> hasRotationRef (useFrame lib p tk st) = hasRotationRef st
     \<and> map_option grp_quaternion (groupRef (useFrame lib p tk st))
         = map_option grp_quaternion (groupRef st)"
  by (auto simp: useFrame_def Let_def smoothRotation_skip [OF assms] applyBlendshapes_keeps
      smoothPlacement_keeps hideGroup_keeps split: option.splits)

text \<open>
  Claim C5. In a frame whose snapshot carries a matrix with a non-finite number (NaN or an
  infinity) among its first 16 components, the rotation update is skipped: the smoothed
  quaternion, the target quaternion, the first-rotation flag and the group's quaternion are
  after the frame what they were before it. Position and scale smoothing do not see the skip:
  they leave the same values and the same placement of the group as in the frame run with any
  other matrix \<open>mx\<close> (a valid one, or none) in the snapshot.
\<close>

theorem nonfinite_matrix_skips_rotation:
  assumes "tk_snapshot tk = Some s" and "snap_matrix s = Some m"
    and "i < 16" and "i < length m" and "\<not> isFinite (m ! i)"
  shows "smoothQuatRef (useFrame lib p tk st) = smoothQuatRef st
     \<and> targetQuatRef (useFrame lib p tk st) = targetQuatRef st
     \<and> hasRotationRef (useFrame lib p tk st) = hasRotationRef st
     \<and> map_option grp_quaternion (groupRef (useFrame lib p tk st))
         = map_option grp_quaternion (groupRef st)
     \<and> placementOf (useFrame lib p tk st)
         = placementOf (useFrame lib p (tk\<lparr>tk_snapshot := Some (s\<lparr>snap_matrix := mx\<rparr>)\<rparr>) st)"
  using useFrame_rotation_skip [OF assms(1,2) hasValidMatrix_nonfinite [OF assms(3,4,5)]]
    useFrame_placement_matrix [OF assms(1), of lib p mx st]
  by simp

theorem nonfinite_matrix_skips_rotation_witness:
  "tk_snapshot (sampleTick (Some nanSnapshot) 1016) = Some nanSnapshot
   \<and> snap_matrix nanSnapshot = Some (NaN # replicate 15 (Finite 0))
   \<and> \<not> isFinite ((NaN # replicate 15 (Finite 0)) ! 0)
   \<and> smoothQuatRef (useFrame planarThree sampleAvatarProps (sampleTick (Some nanSnapshot) 1016)
        sampleAvatar) = 0.5
   \<and> placementOf (useFrame planarThree sampleAvatarProps (sampleTick (Some nanSnapshot) 1016)
        sampleAvatar)
      = placementOf (useFrame planarThree sampleAvatarProps
          (sampleTick (Some (nanSnapshot\<lparr>snap_matrix := Some (replicate 16 (Finite 1))\<rparr>)) 1016)
          sampleAvatar)"
  using nonfinite_matrix_skips_rotation [of "sampleTick (Some nanSnapshot) 1016" nanSnapshot
      "NaN # replicate 15 (Finite 0)" 0 planarThree sampleAvatarProps sampleAvatar
      "Some (replicate 16 (Finite 1))"]
  by (simp add: sampleTick_def nanSnapshot_def sampleAvatar_def)

section \<open>3D overlay: expression weights\<close>

lemma applyShape_meshReady:
  "meshReady dict st \<Longrightarrow> meshReady dict (applyShape st sh)"
  by (auto simp: meshReady_def applyShape_def Let_def split: option.splits)

lemma applyShape_other_name:
  "n \<noteq> bs_name sh \<Longrightarrow> blendshapeStateRef (applyShape st sh) n = blendshapeStateRef st n"
  by (simp add: applyShape_def Let_def split: option.splits)

lemma applyShape_other_index:
  assumes "meshReady dict st" "dict (bs_name sh) \<noteq> Some index"
  shows "influenceAt (applyShape st sh) index = influenceAt st index"
  using assms
  by (auto simp: meshReady_def applyShape_def influenceAt_def Let_def split: option.splits)

lemma applyShape_this:
  assumes "meshReady dict st" "dict (bs_name sh) = Some index"
  shows "blendshapeStateRef (applyShape st sh) (bs_name sh)
           = Some (smoothedWeight (blendshapeStateRef st (bs_name sh)) sh)"
    and "influenceAt (applyShape st sh) index
           = Some (min 1 (max 0 (smoothedWeight (blendshapeStateRef st (bs_name sh)) sh)))"
  using assms
  by (auto simp: meshReady_def applyShape_def influenceAt_def smoothedWeight_def Let_def
      eyeLookSmoothing_def blendshapeSmoothing_def eyeLookScale_def split: option.splits)

lemma foldl_applyShape_meshReady:
  "meshReady dict st \<Longrightarrow> meshReady dict (foldl applyShape st shapes)"
  by (induction shapes arbitrary: st) (simp_all add: applyShape_meshReady)

lemma foldl_applyShape_other_name:
  "n \<notin> bs_name ` set shapes \<Longrightarrow>
   blendshapeStateRef (foldl applyShape st shapes) n = blendshapeStateRef st n"
  by (induction shapes arbitrary: st) (simp_all add: applyShape_other_name)

lemma foldl_applyShape_other_index:
  "meshReady dict st \<Longrightarrow> \<forall>sh \<in> set shapes. dict (bs_name sh) \<noteq> Some index \<Longrightarrow>
   influenceAt (foldl applyShape st shapes) index = influenceAt st index"
  by (induction shapes arbitrary: st) (simp_all add: applyShape_other_index applyShape_meshReady)

text \<open>
  The loop over the shapes, for names that occur once and a dictionary that gives each name
  its own index: every shape known to the dictionary ends with its smoothed weight.
\<close>

lemma foldl_applyShape_this:
  assumes ready: "meshReady dict st"
    and names: "distinct (map bs_name shapes)"
    and inj: "inj_on dict (dom dict)"
    and shape: "shape \<in> set shapes" "dict (bs_name shape) = Some index"
  shows "blendshapeStateRef (foldl applyShape st shapes) (bs_name shape)
           = Some (smoothedWeight (blendshapeStateRef st (bs_name shape)) shape)
       \<and> influenceAt (foldl applyShape st shapes) index
           = Some (min 1 (max 0 (smoothedWeight (blendshapeStateRef st (bs_name shape)) shape)))"
proof -
  obtain pre post where split: "shapes = pre @ shape # post"
    using shape(1) by (auto simp: in_set_conv_decomp)
  have pre: "bs_name shape \<notin> bs_name ` set pre" and post: "bs_name shape \<notin> bs_name ` set post"
    using names by (auto simp: split)
  let ?st1 = "foldl applyShape st pre"
  let ?st2 = "applyShape ?st1 shape"
  let ?w = "smoothedWeight (blendshapeStateRef st (bs_name shape)) shape"
  have r1: "meshReady dict ?st1"
    by (rule foldl_applyShape_meshReady [OF ready])
  have r2: "meshReady dict ?st2"
    by (rule applyShape_meshReady [OF r1])
  have prev: "blendshapeStateRef ?st1 (bs_name shape) = blendshapeStateRef st (bs_name shape)"
    by (rule foldl_applyShape_other_name [OF pre])
  have s2: "blendshapeStateRef ?st2 (bs_name shape) = Some ?w"
    and i2: "influenceAt ?st2 index = Some (min 1 (max 0 ?w))"
    using applyShape_this [OF r1 shape(2)] by (simp_all add: prev)
  have other: "\<forall>sh \<in> set post. dict (bs_name sh) \<noteq> Some index"
  proof
    fix sh assume sh: "sh \<in> set post"
    show "dict (bs_name sh) \<noteq> Some index"
    proof
      assume eq: "dict (bs_name sh) = Some index"
      then have "dict (bs_name sh) = dict (bs_name shape)"
        using shape(2) by simp
      moreover have "bs_name sh \<in> dom dict" "bs_name shape \<in> dom dict"
        using eq shape(2) by auto
      ultimately have "bs_name sh = bs_name shape"
        using inj by (auto dest: inj_onD)
      then have "bs_name shape \<in> bs_name ` set post"
        using sh by (metis imageI)
      then show False using post by simp
    qed
  qed
  have fold: "foldl applyShape st shapes = foldl applyShape ?st2 post"
    by (simp add: split)
  show ?thesis
    unfolding fold
    by (simp add: foldl_applyShape_other_name [OF post] s2
        foldl_applyShape_other_index [OF r2 other] i2)
qed

text \<open>A frame that derives a box and has a group to place runs all three smoothing steps.\<close>

lemma useFrame_drawn:
  assumes "av_enabled p" "groupRef st \<noteq> None"
    "fs_width (tk_frame tk) \<noteq> 0" "fs_height (tk_frame tk) \<noteq> 0"
    "tk_snapshot tk = Some s" "snap_landmarks s \<noteq> []"
    "b = computeFaceBox (snap_landmarks s) (fs_width (tk_frame tk)) (fs_height (tk_frame tk))
           avatarPadX avatarPadY avatarShiftY (av_mirror p)"
  shows "useFrame lib p tk st =
           applyBlendshapes (Some s) (smoothRotation lib p tk
             (smoothPlacement p tk b (st\<lparr>lastFaceBoxRef := Some b, lastFaceBoxTimeRef := tk_now tk\<rparr>)))"
  using assms by (auto simp: useFrame_def Let_def latestFaceBox_def heldFaceBox_def)

text \<open>
  Claim C9. In a frame that is drawn (overlay enabled, group mounted, frame size known, a
  snapshot with a landmark) and for a mesh with morph targets, every blendshape of the
  snapshot whose name is in the mesh's dictionary gets this weight: the linear interpolation
  from its previous smoothed state (0 when there is none) towards its score with factor 0.25,
  or, when its name starts with \<open>eyeLook\<close>, towards 0.4 times its score with factor 0.15.
  That value becomes the new smoothed state, and clamped to \<open>[0, 1]\<close> it is written to the
  mesh at the index of the name. The names of a snapshot are taken to be distinct and the
  dictionary to give different names different indices.
\<close>

theorem blendshape_weights_smoothed:
  assumes drawn: "av_enabled p" "groupRef st \<noteq> None"
      "fs_width (tk_frame tk) \<noteq> 0" "fs_height (tk_frame tk) \<noteq> 0"
      "tk_snapshot tk = Some s" "snap_landmarks s \<noteq> []"
    and shapes: "snap_blendshapes s = Some shapes"
    and ready: "meshReady dict st"
    and names: "distinct (map bs_name shapes)"
    and inj: "inj_on dict (dom dict)"
    and shape: "shape \<in> set shapes" "dict (bs_name shape) = Some index"
  shows "blendshapeStateRef (useFrame lib p tk st) (bs_name shape)
           = Some (smoothedWeight (blendshapeStateRef st (bs_name shape)) shape)
       \<and> influenceAt (useFrame lib p tk st) index
           = Some (min 1 (max 0 (smoothedWeight (blendshapeStateRef st (bs_name shape)) shape)))
       \<and> (\<exists>w. influenceAt (useFrame lib p tk st) index = Some w \<and> 0 \<le> w \<and> w \<le> 1)"
proof -
  define b where "b = computeFaceBox (snap_landmarks s) (fs_width (tk_frame tk))
      (fs_height (tk_frame tk)) avatarPadX avatarPadY avatarShiftY (av_mirror p)"
  have frame: "useFrame lib p tk st =
      applyBlendshapes (Some s) (smoothRotation lib p tk
        (smoothPlacement p tk b (st\<lparr>lastFaceBoxRef := Some b, lastFaceBoxTimeRef := tk_now tk\<rparr>)))"
    by (rule useFrame_drawn [OF drawn b_def])
  let ?st = "smoothRotation lib p tk
        (smoothPlacement p tk b (st\<lparr>lastFaceBoxRef := Some b, lastFaceBoxTimeRef := tk_now tk\<rparr>))"
  have state: "blendshapeStateRef ?st = blendshapeStateRef st"
    and mesh: "morphTargetMeshRef ?st = morphTargetMeshRef st"
    by (simp_all add: smoothRotation_keeps smoothPlacement_keeps)
  have ready': "meshReady dict ?st"
    using ready by (simp add: meshReady_def mesh)
  have mesh': "morphTargetMeshRef ?st \<noteq> None"
    using ready' by (auto simp: meshReady_def)
  have "shapes \<noteq> []"
    using shape(1) by auto
  then have loop: "useFrame lib p tk st = foldl applyShape ?st shapes"
    using mesh' by (simp add: frame applyBlendshapes_def shapes)
  have r: "blendshapeStateRef (useFrame lib p tk st) (bs_name shape)
           = Some (smoothedWeight (blendshapeStateRef st (bs_name shape)) shape)
       \<and> influenceAt (useFrame lib p tk st) index
           = Some (min 1 (max 0 (smoothedWeight (blendshapeStateRef st (bs_name shape)) shape)))"
    using foldl_applyShape_this [OF ready' names inj shape] by (simp add: loop state)
  then show ?thesis
    by auto
qed

lemma sampleAvatar_ready:
  "meshReady [''jawOpen'' \<mapsto> 0, ''eyeLookUpLeft'' \<mapsto> 1] sampleAvatar"
  by (simp add: meshReady_def sampleAvatar_def)

lemma sampleDictionary_inj:
  "inj_on [''jawOpen'' \<mapsto> 0::nat, ''eyeLookUpLeft'' \<mapsto> 1]
     (dom [''jawOpen'' \<mapsto> 0::nat, ''eyeLookUpLeft'' \<mapsto> 1])"
  by simp

theorem blendshape_weights_smoothed_witness:
  "blendshapeStateRef sampleAvatar ''jawOpen'' = Some 0.4
   \<and> blendshapeStateRef sampleAvatar ''eyeLookUpLeft'' = None
   \<and> blendshapeStateRef
        (useFrame planarThree sampleAvatarProps (sampleTick (Some nanSnapshot) 1016) sampleAvatar)
        ''jawOpen'' = Some 0.5
   \<and> influenceAt
        (useFrame planarThree sampleAvatarProps (sampleTick (Some nanSnapshot) 1016) sampleAvatar)
        0 = Some 0.5
   \<and> blendshapeStateRef
        (useFrame planarThree sampleAvatarProps (sampleTick (Some nanSnapshot) 1016) sampleAvatar)
        ''eyeLookUpLeft'' = Some 0.03
   \<and> influenceAt
        (useFrame planarThree sampleAvatarProps (sampleTick (Some nanSnapshot) 1016) sampleAvatar)
        1 = Some 0.03"
  using blendshape_weights_smoothed [of sampleAvatarProps sampleAvatar
      "sampleTick (Some nanSnapshot) 1016" nanSnapshot
      "[\<lparr>bs_name = ''jawOpen'', bs_score = 0.8\<rparr>, \<lparr>bs_name = ''eyeLookUpLeft'', bs_score = 0.5\<rparr>]"
      "[''jawOpen'' \<mapsto> 0, ''eyeLookUpLeft'' \<mapsto> 1]"
      "\<lparr>bs_name = ''jawOpen'', bs_score = 0.8\<rparr>" 0 planarThree]
    blendshape_weights_smoothed [of sampleAvatarProps sampleAvatar
      "sampleTick (Some nanSnapshot) 1016" nanSnapshot
      "[\<lparr>bs_name = ''jawOpen'', bs_score = 0.8\<rparr>, \<lparr>bs_name = ''eyeLookUpLeft'', bs_score = 0.5\<rparr>]"
      "[''jawOpen'' \<mapsto> 0, ''eyeLookUpLeft'' \<mapsto> 1]"
      "\<lparr>bs_name = ''eyeLookUpLeft'', bs_score = 0.5\<rparr>" 1 planarThree]
    sampleAvatar_ready sampleDictionary_inj
  by (simp add: sampleAvatarProps_def sampleTick_def nanSnapshot_def fixtureLandmarks_def
      smoothedWeight_def lerp_def)
     (simp add: sampleAvatar_def)

section \<open>Compositor: passthrough\<close>

lemma backgroundLayer_direct:
  assumes "\<not> enableBackgroundReplace p \<or> segmentationMask segmentation = None"
  shows "backgroundLayer p width height maskCtx personCtx segmentation st =
     st\<lparr>ctx := ctx st @ [DrawImage Video 0 0 width height]\<rparr>"
  using assms by (auto simp: backgroundLayer_def)

lemma faceLayerOps_none:
  assumes "\<not> enableFaceSwap p \<or> faceLayerBox p width height snapshot = None"
  shows "faceLayerOps p width height snapshot = []"
  using assms by (auto simp: faceLayerOps_def)

text \<open>
  The claim as first stated, that with background replacement disabled the composited output
  is a single direct draw of the source frame, fails on a frame with the 2D face overlay
  enabled and a face in view: the overlay image is drawn over the frame.
\<close>

theorem passthrough_counterexample:
  "\<not> enableBackgroundReplace faceSwapProps
   \<and> ctx (drawComposition faceSwapProps 640 480 True True None (Some nanSnapshot)
            initialCompositor)
      = [Save, ClearRect 0 0 640 480, Scale (-1) 1, Translate (-640) 0,
         DrawImage Video 0 0 640 480, DrawImage FaceOverlayImage 12.8 1.92 614.4 537.6, Restore]
   \<and> ctx (drawComposition faceSwapProps 640 480 True True None (Some nanSnapshot)
            initialCompositor)
      \<noteq> ctx initialCompositor @ directDraw (mirrorCamera faceSwapProps) 640 480"
  by (simp add: faceSwapProps_def drawComposition_def Let_def backgroundLayer_def
      segmentationMask_def faceLayerOps_def faceLayerBox_def nanSnapshot_def fixtureLandmarks_def
      initialCompositor_def mirrorOps_def directDraw_def computeFaceBox_def baseBox_def
      scanLandmarks_def scanPoint_def initExtents_def)

text \<open>
  Claim C8, amended. In a frame on which background replacement is disabled, or for which no
  segmentation mask is supplied, the background layer is a single direct draw of the source
  video frame inside the optional mirror transform, and neither offscreen canvas is touched
  (nor is any segmentation released). The calls on the canvas are then: save, clear, the
  mirror transform if set, the one draw of the video, the calls of the face layer, restore.
  When in addition the 2D face overlay is disabled or no face box can be derived, the face
  layer draws nothing and the composited output is exactly the direct draw.
\<close>

theorem passthrough_background:
  assumes "\<not> enableBackgroundReplace p \<or> segmentationMask segmentation = None"
  shows "ctx (drawComposition p width height maskCtx personCtx segmentation snapshot st)
       = ctx st @ [Save, ClearRect 0 0 width height] @ mirrorOps (mirrorCamera p) width
           @ [DrawImage Video 0 0 width height]
           @ faceLayerOps p width height snapshot @ [Restore]
     \<and> maskCanvasRef (drawComposition p width height maskCtx personCtx segmentation snapshot st)
       = maskCanvasRef st
     \<and> personCanvasRef (drawComposition p width height maskCtx personCtx segmentation snapshot st)
       = personCanvasRef st
     \<and> closed (drawComposition p width height maskCtx personCtx segmentation snapshot st)
       = closed st
     \<and> (\<not> enableFaceSwap p \<or> faceLayerBox p width height snapshot = None \<longrightarrow>
          ctx (drawComposition p width height maskCtx personCtx segmentation snapshot st)
            = ctx st @ directDraw (mirrorCamera p) width height)"
  using faceLayerOps_none [of p width height snapshot]
  by (auto simp: drawComposition_def Let_def backgroundLayer_direct [OF assms] directDraw_def)

theorem passthrough_background_witness:
  "\<not> enableBackgroundReplace avatarModeProps
   \<and> \<not> enableFaceSwap avatarModeProps
   \<and> ctx (drawComposition avatarModeProps 640 480 True True None (Some sampleSnapshot)
            initialCompositor)
      = [Save, ClearRect 0 0 640 480, Scale (-1) 1, Translate (-640) 0,
         DrawImage Video 0 0 640 480, Restore]
   \<and> maskCanvasRef (drawComposition avatarModeProps 640 480 True True None (Some sampleSnapshot)
            initialCompositor) = None
   \<and> personCanvasRef (drawComposition avatarModeProps 640 480 True True None (Some sampleSnapshot)
            initialCompositor) = None"
  using passthrough_background [of avatarModeProps None 640 480 True True "Some sampleSnapshot"
      initialCompositor]
  by (simp add: avatarModeProps_def initialCompositor_def directDraw_def mirrorOps_def
      faceLayerOps_def)

section \<open>Face-box deriver: the empty landmark sequence\<close>

lemma computeFaceBox_Nil:
  "computeFaceBox [] frameWidth frameHeight padX padY yShift mirrorX =
     \<lparr>box_x = frameWidth + frameWidth * padX * 0.5,
      box_y = frameHeight + frameHeight * padY * yShift,
      box_width = - frameWidth * (1 + padX),
      box_height = - frameHeight * (1 + padY)\<rparr>"
  by (simp add: computeFaceBox_def baseBox_def scanLandmarks_def initExtents_def Let_def
      algebra_simps)

lemma useFrame_no_landmarks:
  "lastFaceBoxRef (useFrame lib ap (tk\<lparr>tk_snapshot := Some (s\<lparr>snap_landmarks := []\<rparr>)\<rparr>) ast)
     = lastFaceBoxRef ast"
  by (auto simp: useFrame_def Let_def latestFaceBox_def hideGroup_keeps applyBlendshapes_keeps
      smoothRotation_def smoothPlacement_def split: option.splits)

text \<open>
  Claim C10. On the empty landmark sequence \<open>computeFaceBox\<close> does not fail: the scan leaves
  \<open>minX = minY = 1\<close> and \<open>maxX = maxY = 0\<close>, and the box has
  \<open>width = - frameWidth \<cdot> (1 + padX)\<close> and \<open>height = - frameHeight \<cdot> (1 + padY)\<close> for either
  mirror flag, both negative for a positive frame size and paddings that are not negative.
  Neither call site lets such a box through: for a snapshot without landmarks the compositor
  derives no box, stores none and draws no face layer, and the overlay derives none and
  leaves its last known box as it was.
\<close>

theorem computeFaceBox_empty_landmarks:
  "scanLandmarks [] = \<lparr>minX = 1, minY = 1, maxX = 0, maxY = 0\<rparr>
   \<and> computeFaceBox [] frameWidth frameHeight padX padY yShift mirrorX =
       \<lparr>box_x = frameWidth + frameWidth * padX * 0.5,
        box_y = frameHeight + frameHeight * padY * yShift,
        box_width = - frameWidth * (1 + padX),
        box_height = - frameHeight * (1 + padY)\<rparr>
   \<and> (0 < frameWidth \<and> 0 \<le> padX \<longrightarrow>
        box_width (computeFaceBox [] frameWidth frameHeight padX padY yShift mirrorX) < 0)
   \<and> (0 < frameHeight \<and> 0 \<le> padY \<longrightarrow>
        box_height (computeFaceBox [] frameWidth frameHeight padX padY yShift mirrorX) < 0)
   \<and> faceLayerBox p width height (Some (s\<lparr>snap_landmarks := []\<rparr>)) = None
   \<and> faceBoxRef (drawComposition p width height maskCtx personCtx segmentation
         (Some (s\<lparr>snap_landmarks := []\<rparr>)) cst) = None
   \<and> faceLayerOps p width height (Some (s\<lparr>snap_landmarks := []\<rparr>)) = []
   \<and> latestFaceBox ap frame (Some (s\<lparr>snap_landmarks := []\<rparr>)) = None
   \<and> lastFaceBoxRef (useFrame lib ap (tk\<lparr>tk_snapshot := Some (s\<lparr>snap_landmarks := []\<rparr>)\<rparr>) ast)
       = lastFaceBoxRef ast"
proof (intro conjI impI)
  show "scanLandmarks [] = \<lparr>minX = 1, minY = 1, maxX = 0, maxY = 0\<rparr>"
    by (simp add: scanLandmarks_def initExtents_def)
  show "computeFaceBox [] frameWidth frameHeight padX padY yShift mirrorX =
       \<lparr>box_x = frameWidth + frameWidth * padX * 0.5,
        box_y = frameHeight + frameHeight * padY * yShift,
        box_width = - frameWidth * (1 + padX),
        box_height = - frameHeight * (1 + padY)\<rparr>"
    by (rule computeFaceBox_Nil)
  show "box_width (computeFaceBox [] frameWidth frameHeight padX padY yShift mirrorX) < 0"
    if "0 < frameWidth \<and> 0 \<le> padX"
  proof -
    have "0 < frameWidth * (1 + padX)"
      using that by (intro mult_pos_pos) auto
    then show ?thesis by (simp add: computeFaceBox_Nil)
  qed
  show "box_height (computeFaceBox [] frameWidth frameHeight padX padY yShift mirrorX) < 0"
    if "0 < frameHeight \<and> 0 \<le> padY"
  proof -
    have "0 < frameHeight * (1 + padY)"
      using that by (intro mult_pos_pos) auto
    then show ?thesis by (simp add: computeFaceBox_Nil)
  qed
  show "faceLayerBox p width height (Some (s\<lparr>snap_landmarks := []\<rparr>)) = None"
    by (simp add: faceLayerBox_def)
  show "faceBoxRef (drawComposition p width height maskCtx personCtx segmentation
         (Some (s\<lparr>snap_landmarks := []\<rparr>)) cst) = None"
    by (simp add: drawComposition_def Let_def faceLayerBox_def)
  show "faceLayerOps p width height (Some (s\<lparr>snap_landmarks := []\<rparr>)) = []"
    by (simp add: faceLayerOps_def faceLayerBox_def)
  show "latestFaceBox ap frame (Some (s\<lparr>snap_landmarks := []\<rparr>)) = None"
    by (simp add: latestFaceBox_def)
  show "lastFaceBoxRef (useFrame lib ap (tk\<lparr>tk_snapshot := Some (s\<lparr>snap_landmarks := []\<rparr>)\<rparr>) ast)
       = lastFaceBoxRef ast"
    by (rule useFrame_no_landmarks)
qed

theorem computeFaceBox_empty_landmarks_witness:
  "(0::real) < 640 \<and> (0::real) \<le> 0.2 \<and> (0::real) < 480 \<and> (0::real) \<le> 0.4
   \<and> computeFaceBox [] 640 480 0.2 0.4 0.3 True
       = \<lparr>box_x = 704, box_y = 537.6, box_width = - 768, box_height = - 672\<rparr>
   \<and> box_width (computeFaceBox [] 640 480 0.2 0.4 0.3 True) < 0
   \<and> box_height (computeFaceBox [] 640 480 0.2 0.4 0.3 True) < 0
   \<and> faceBoxRef (drawComposition faceSwapProps 640 480 True True None
         (Some (sampleSnapshot\<lparr>snap_landmarks := []\<rparr>)) initialCompositor) = None
   \<and> lastFaceBoxRef (useFrame planarThree sampleAvatarProps
         ((sampleTick None 1016)\<lparr>tk_snapshot := Some (sampleSnapshot\<lparr>snap_landmarks := []\<rparr>)\<rparr>)
         sampleAvatar)
       = lastFaceBoxRef sampleAvatar"
  using computeFaceBox_empty_landmarks [of 640 480 "0.2" "0.4" "0.3" True faceSwapProps 640 480
      sampleSnapshot True True None initialCompositor sampleAvatarProps
      "\<lparr>fs_width = 640, fs_height = 480\<rparr>" planarThree "sampleTick None 1016" sampleAvatar]
  by simp

section \<open>Spherical interpolation of unit quaternions\<close>

lemma qdot_commute: "qdot a b = qdot b a"
  by (simp add: qdot_def mult.commute)

lemma qdot_qneg: "qdot a (qneg b) = - qdot a b" "qdot (qneg a) b = - qdot a b"
  by (simp_all add: qdot_def qneg_def)

lemma qdot_qcombine:
  "qdot (qcombine ra a rb b) c = ra * qdot a c + rb * qdot b c"
  "qdot c (qcombine ra a rb b) = ra * qdot c a + rb * qdot c b"
  by (simp_all add: qdot_def qcombine_def algebra_simps)

text \<open>The inner product of two unit quaternions lies between \<open>-1\<close> and \<open>1\<close>.\<close>

lemma qdot_unit_bound:
  assumes "qdot a a = 1" "qdot b b = 1"
  shows "\<bar>qdot a b\<bar> \<le> 1"
proof -
  have minus: "0 \<le> (q_x a - q_x b)\<^sup>2 + (q_y a - q_y b)\<^sup>2 + (q_z a - q_z b)\<^sup>2 + (q_w a - q_w b)\<^sup>2"
    by simp
  have plus: "0 \<le> (q_x a + q_x b)\<^sup>2 + (q_y a + q_y b)\<^sup>2 + (q_z a + q_z b)\<^sup>2 + (q_w a + q_w b)\<^sup>2"
    by simp
  have "(q_x a - q_x b)\<^sup>2 + (q_y a - q_y b)\<^sup>2 + (q_z a - q_z b)\<^sup>2 + (q_w a - q_w b)\<^sup>2
      = qdot a a + qdot b b - 2 * qdot a b"
    by (simp add: qdot_def power2_eq_square algebra_simps)
  moreover have "(q_x a + q_x b)\<^sup>2 + (q_y a + q_y b)\<^sup>2 + (q_z a + q_z b)\<^sup>2 + (q_w a + q_w b)\<^sup>2
      = qdot a a + qdot b b + 2 * qdot a b"
    by (simp add: qdot_def power2_eq_square algebra_simps)
  ultimately have "0 \<le> 2 - 2 * qdot a b" "0 \<le> 2 + 2 * qdot a b"
    using minus plus assms by simp_all
  then show ?thesis by (simp add: abs_le_iff)
qed

lemma qangle_range:
  "0 \<le> qangle a b" "qangle a b \<le> pi / 2"
proof -
  have lo: "0 \<le> min 1 \<bar>qdot a b\<bar>" and hi: "min 1 \<bar>qdot a b\<bar> \<le> 1"
    by simp_all
  have "- 1 \<le> min 1 \<bar>qdot a b\<bar>"
    using lo by linarith
  then show "0 \<le> qangle a b"
    unfolding qangle_def using hi by (rule arccos_lbound)
  show "qangle a b \<le> pi / 2"
    unfolding qangle_def using lo hi by (rule arccos_le_pi2)
qed

lemma cos_qangle:
  assumes "qdot a a = 1" "qdot b b = 1"
  shows "cos (qangle a b) = \<bar>qdot a b\<bar>"
proof -
  have "min 1 \<bar>qdot a b\<bar> = \<bar>qdot a b\<bar>"
    using qdot_unit_bound [OF assms] by simp
  then show ?thesis
    unfolding qangle_def using qdot_unit_bound [OF assms] by (simp add: cos_arccos)
qed

lemma qangle_self:
  assumes "qdot a a = 1"
  shows "qangle a a = 0"
  using assms by (simp add: qangle_def)

text \<open>The trigonometry of one interpolation step.\<close>

lemma slerp_dot_identity:
  fixes t theta :: real
  shows "sin ((1 - t) * theta) * cos theta + sin (t * theta)
       = sin theta * cos ((1 - t) * theta)"
proof -
  have "t * theta = theta - (1 - t) * theta"
    by (simp add: algebra_simps)
  then have "sin (t * theta) = sin theta * cos ((1 - t) * theta) - cos theta * sin ((1 - t) * theta)"
    by (simp only: sin_diff)
  then show ?thesis by (simp add: algebra_simps)
qed

lemma slerp_norm_identity:
  fixes a b :: real
  shows "(sin a)\<^sup>2 + (sin b)\<^sup>2 + 2 * (sin a * sin b) * cos (a + b) = (sin (a + b))\<^sup>2"
proof -
  have ca: "(cos a)\<^sup>2 = 1 - (sin a)\<^sup>2" and cb: "(cos b)\<^sup>2 = 1 - (sin b)\<^sup>2"
    by (simp_all add: cos_squared_eq)
  have "(sin (a + b))\<^sup>2 = (sin a)\<^sup>2 * (cos b)\<^sup>2 + (cos a)\<^sup>2 * (sin b)\<^sup>2
      + 2 * (sin a * sin b) * (cos a * cos b)"
    by (simp add: sin_add power2_eq_square algebra_simps)
  also have "\<dots> = (sin a)\<^sup>2 + (sin b)\<^sup>2 + 2 * (sin a * sin b) * (cos a * cos b - sin a * sin b)"
    unfolding ca cb by (simp add: power2_eq_square algebra_simps)
  finally show ?thesis
    by (simp add: cos_add)
qed

text \<open>
  One step from a unit quaternion towards a unit target, with a factor between 0 and 1: the
  result is a unit quaternion, and its angle to the target is the fraction \<open>1 - t\<close> of the
  angle before.
\<close>

lemma sphericalInterpolation_step:
  assumes q: "qdot q q = 1" and target: "qdot target target = 1"
    and t: "0 \<le> t" "t \<le> 1"
  shows "qdot (sphericalInterpolation q target t) (sphericalInterpolation q target t) = 1"
    and "qangle (sphericalInterpolation q target t) target = (1 - t) * qangle q target"
proof -
  define theta where "theta = qangle q target"
  define target' where "target' = (if qdot q target < 0 then qneg target else target)"
  let ?r = "sphericalInterpolation q target t"
  have range: "0 \<le> theta" "theta \<le> pi / 2"
    unfolding theta_def by (rule qangle_range)+
  have cos_theta: "cos theta = \<bar>qdot q target\<bar>"
    unfolding theta_def by (rule cos_qangle [OF q target])
  have dot': "qdot q target' = cos theta"
    by (simp add: target'_def qdot_qneg cos_theta)
  have unit': "qdot target' target' = 1"
    by (simp add: target'_def qdot_qneg target)
  have abs': "\<bar>qdot c target\<bar> = \<bar>qdot c target'\<bar>" for c
    by (simp add: target'_def qdot_qneg)
  have part: "0 \<le> (1 - t) * theta" "(1 - t) * theta \<le> pi / 2"
  proof -
    show "0 \<le> (1 - t) * theta"
      using t range by simp
    have "(1 - t) * theta \<le> 1 * theta"
      using t range by (intro mult_right_mono) simp_all
    then show "(1 - t) * theta \<le> pi / 2"
      using range by simp
  qed
  show "qdot ?r ?r = 1" and "qangle ?r target = (1 - t) * qangle q target"
  proof -
    consider (zero) "sin theta = 0" | (pos) "sin theta \<noteq> 0"
      by blast
    then have "qdot ?r ?r = 1 \<and> qangle ?r target = (1 - t) * theta"
    proof cases
      case zero
      have "theta = 0"
      proof (rule ccontr)
        assume "theta \<noteq> 0"
        then have "0 < theta" "theta < pi"
          using range pi_gt_zero by linarith+
        then have "0 < sin theta"
          by (rule sin_gt_zero)
        then show False using zero by simp
      qed
      moreover have "?r = q"
        using zero by (simp add: sphericalInterpolation_def Let_def theta_def)
      ultimately show ?thesis
        using q by (simp add: theta_def)
    next
      case pos
      let ?A = "sin ((1 - t) * theta) / sin theta"
      let ?B = "sin (t * theta) / sin theta"
      have r: "?r = qcombine ?A q ?B target'"
        using pos by (simp add: sphericalInterpolation_def Let_def theta_def target'_def)
      have "qdot ?r target' = ?A * cos theta + ?B"
        by (simp add: r qdot_qcombine dot' unit')
      also have "\<dots> = (sin ((1 - t) * theta) * cos theta + sin (t * theta)) / sin theta"
        by (simp add: add_divide_distrib)
      also have "\<dots> = cos ((1 - t) * theta)"
        using pos by (simp add: slerp_dot_identity)
      finally have dot_r: "qdot ?r target' = cos ((1 - t) * theta)" .
      have nonneg: "0 \<le> cos ((1 - t) * theta)"
        using part by (intro cos_ge_zero) simp_all
      have "qangle ?r target = arccos (min 1 (cos ((1 - t) * theta)))"
        unfolding qangle_def by (simp only: abs' dot_r abs_of_nonneg [OF nonneg])
      also have "\<dots> = arccos (cos ((1 - t) * theta))"
        by (simp add: min_absorb2)
      also have "\<dots> = (1 - t) * theta"
        using part pi_gt_zero by (intro arccos_cos) linarith+
      finally have angle: "qangle ?r target = (1 - t) * theta" .
      have sum: "(1 - t) * theta + t * theta = theta"
        by (simp add: algebra_simps)
      have "qdot ?r ?r = ?A * (?A * 1 + ?B * cos theta) + ?B * (?A * cos theta + ?B * 1)"
        by (simp add: r qdot_qcombine q unit' dot' qdot_commute [of target' q])
      also have "\<dots> = ((sin ((1 - t) * theta))\<^sup>2 + (sin (t * theta))\<^sup>2
          + 2 * (sin ((1 - t) * theta) * sin (t * theta)) * cos theta) / (sin theta)\<^sup>2"
        by (simp add: power2_eq_square algebra_simps add_divide_distrib)
      also have "\<dots> = (sin theta)\<^sup>2 / (sin theta)\<^sup>2"
        using slerp_norm_identity [of "(1 - t) * theta" "t * theta"] by (simp only: sum)
      also have "\<dots> = 1"
        using pos by simp
      finally show ?thesis
        using angle by simp
    qed
    then show "qdot ?r ?r = 1" and "qangle ?r target = (1 - t) * qangle q target"
      by (simp_all add: theta_def)
  qed
qed

text \<open>
  Quaternions on the great circle through \<open>a\<close> and \<open>e\<close>, two orthogonal unit quaternions:
  \<open>arcPoint a e phi\<close> is at the angle \<open>phi\<close> from \<open>a\<close>.
\<close>

lemma qcombine_nested:
  "qcombine ra (qcombine c a s e) rb a = qcombine (ra * c + rb) a (ra * s) e"
  by (simp add: qcombine_def algebra_simps)

lemma arcPoint_dot:
  assumes "qdot a a = 1" "qdot e e = 1" "qdot a e = 0"
  shows "qdot (arcPoint a e x) (arcPoint a e y) = cos (x - y)"
    and "qdot (arcPoint a e x) a = cos x"
  using assms
  by (simp_all add: arcPoint_def qdot_qcombine qdot_commute [of e a] cos_diff algebra_simps)

lemma arcPoint_zero: "arcPoint a e 0 = qcombine 1 a 0 e"
  by (simp add: arcPoint_def)

text \<open>Two unit quaternions at a positive angle span such a circle.\<close>

lemma arcPoint_frame:
  assumes q: "qdot q q = 1" and target: "qdot target target = 1"
    and pos: "sin (qangle q target) \<noteq> 0"
  defines "a \<equiv> (if qdot q target < 0 then qneg target else target)"
  defines "e \<equiv> qcombine (1 / sin (qangle q target)) q
                   (- cos (qangle q target) / sin (qangle q target)) a"
  shows "qdot a a = 1" "qdot e e = 1" "qdot a e = 0" "q = arcPoint a e (qangle q target)"
proof -
  let ?th = "qangle q target"
  have cos_theta: "cos ?th = \<bar>qdot q target\<bar>"
    by (rule cos_qangle [OF q target])
  have qa: "qdot q a = cos ?th"
    by (simp add: a_def qdot_qneg cos_theta)
  show aa: "qdot a a = 1"
    by (simp add: a_def qdot_qneg target)
  have s2: "(sin ?th)\<^sup>2 = 1 - (cos ?th)\<^sup>2"
    by (simp add: sin_squared_eq)
  have "qdot e e = (1 - (cos ?th)\<^sup>2) / (sin ?th)\<^sup>2"
    by (simp add: e_def qdot_qcombine q aa qa qdot_commute [of a q] power2_eq_square
        algebra_simps diff_divide_distrib add_divide_distrib)
  then show "qdot e e = 1"
    using pos by (simp add: s2 [symmetric])
  show "qdot a e = 0"
    by (simp add: e_def qdot_qcombine aa qa qdot_commute [of a q])
  show "q = arcPoint a e ?th"
    using pos by (intro quat.equality) (simp_all add: arcPoint_def e_def qcombine_def field_simps)
qed

text \<open>A step of the interpolation from a point of the circle moves along the circle.\<close>

lemma sphericalInterpolation_arcPoint:
  assumes a: "qdot a a = 1" and e: "qdot e e = 1" and ae: "qdot a e = 0"
    and side: "a = target \<or> (a = qneg target \<and> phi < pi / 2)"
    and phi: "0 \<le> phi" "phi \<le> pi / 2"
  shows "qangle (arcPoint a e phi) target = phi"
    and "sphericalInterpolation (arcPoint a e phi) target t = arcPoint a e ((1 - t) * phi)"
proof -
  let ?q = "arcPoint a e phi"
  have qa: "qdot ?q a = cos phi"
    by (rule arcPoint_dot(2) [OF a e ae])
  have nonneg: "0 \<le> cos phi"
    using phi by (intro cos_ge_zero) simp_all
  have abs: "\<bar>qdot ?q target\<bar> = cos phi"
    using side qa nonneg by (auto simp: qdot_qneg)
  have "qangle ?q target = arccos (cos phi)"
    by (simp add: qangle_def abs min_absorb2)
  also have "\<dots> = phi"
    using phi pi_gt_zero by (intro arccos_cos) linarith+
  finally show angle: "qangle ?q target = phi" .
  show "sphericalInterpolation ?q target t = arcPoint a e ((1 - t) * phi)"
  proof (cases "sin phi = 0")
    case True
    have "phi = 0"
    proof (rule ccontr)
      assume "phi \<noteq> 0"
      then have "0 < phi" "phi < pi"
        using phi pi_gt_zero by linarith+
      then have "0 < sin phi"
        by (rule sin_gt_zero)
      then show False using True by simp
    qed
    have zero: "sin (qangle ?q target) = 0"
      using True by (simp only: angle)
    have "sphericalInterpolation ?q target t = ?q"
      by (simp add: sphericalInterpolation_def Let_def zero)
    then show ?thesis
      using \<open>phi = 0\<close> by simp
  next
    case False
    have pick: "(if qdot ?q target < 0 then qneg target else target) = a"
    proof (cases "a = target")
      case True
      then show ?thesis using qa nonneg by simp
    next
      case False
      then have neg: "a = qneg target" and strict: "phi < pi / 2"
        using side by simp_all
      have "0 < cos phi"
        using phi strict by (intro cos_gt_zero_pi) linarith+
      moreover have "qdot ?q target = - cos phi"
        using qa by (simp add: neg qdot_qneg)
      ultimately show ?thesis
        using neg by simp
    qed
    let ?A = "sin ((1 - t) * phi) / sin phi"
    let ?B = "sin (t * phi) / sin phi"
    have "sphericalInterpolation ?q target t = qcombine ?A ?q ?B a"
      using False by (simp add: sphericalInterpolation_def Let_def angle pick)
    also have "\<dots> = qcombine (?A * cos phi + ?B) a (?A * sin phi) e"
      by (simp add: arcPoint_def qcombine_nested)
    also have "?A * cos phi + ?B = cos ((1 - t) * phi)"
    proof -
      have "?A * cos phi + ?B = (sin ((1 - t) * phi) * cos phi + sin (t * phi)) / sin phi"
        by (simp add: add_divide_distrib)
      also have "\<dots> = cos ((1 - t) * phi)"
        using False by (simp add: slerp_dot_identity)
      finally show ?thesis .
    qed
    also have "?A * sin phi = sin ((1 - t) * phi)"
      using False by simp
    finally show ?thesis
      by (simp add: arcPoint_def)
  qed
qed

text \<open>Repeated steps with one factor, from a point of the circle.\<close>

lemma funpow_arcPoint:
  assumes a: "qdot a a = 1" and e: "qdot e e = 1" and ae: "qdot a e = 0"
    and side: "a = target \<or> (a = qneg target \<and> phi < pi / 2)"
    and phi: "0 \<le> phi" "phi \<le> pi / 2"
    and t: "0 \<le> t" "t \<le> 1"
  shows "((\<lambda>q. sphericalInterpolation q target t) ^^ n) (arcPoint a e phi)
       = arcPoint a e ((1 - t) ^ n * phi)"
proof (induction n)
  case 0
  show ?case by simp
next
  case (Suc n)
  let ?phi = "(1 - t) ^ n * phi"
  have f: "0 \<le> (1 - t) ^ n" "(1 - t) ^ n \<le> 1"
    using t by (simp_all add: power_le_one)
  have lo: "0 \<le> ?phi"
    using f phi by simp
  have le: "?phi \<le> phi"
    using f phi mult_right_mono [of "(1 - t) ^ n" 1 phi] by simp
  have hi: "?phi \<le> pi / 2"
    using le phi by linarith
  have side': "a = target \<or> (a = qneg target \<and> ?phi < pi / 2)"
    using side le by auto
  show ?case
    using sphericalInterpolation_arcPoint(2) [OF a e ae side' lo hi, of t] Suc.IH
    by (simp add: mult.assoc)
qed

text \<open>
  Repeated steps from a unit quaternion towards a unit target, with one factor between 0 and
  1: the result is a unit quaternion, its angle to the target is the angle at the start times
  \<open>(1 - t)\<^sup>n\<close>, and it lies on the arc between the start and the target, the two angles to
  the ends of the arc adding up to the angle between them.
\<close>

lemma funpow_sphericalInterpolation:
  assumes q: "qdot q q = 1" and target: "qdot target target = 1"
    and t: "0 \<le> t" "t \<le> 1"
  shows "qdot (((\<lambda>q. sphericalInterpolation q target t) ^^ n) q)
           (((\<lambda>q. sphericalInterpolation q target t) ^^ n) q) = 1"
    and "qangle (((\<lambda>q. sphericalInterpolation q target t) ^^ n) q) target
           = (1 - t) ^ n * qangle q target"
    and "qangle q (((\<lambda>q. sphericalInterpolation q target t) ^^ n) q)
           + qangle (((\<lambda>q. sphericalInterpolation q target t) ^^ n) q) target
           = qangle q target"
proof -
  let ?step = "\<lambda>q. sphericalInterpolation q target t"
  define r where "r = (?step ^^ n) q"
  have both: "qdot ((?step ^^ k) q) ((?step ^^ k) q) = 1
      \<and> qangle ((?step ^^ k) q) target = (1 - t) ^ k * qangle q target" for k
  proof (induction k)
    case 0
    show ?case using q by simp
  next
    case (Suc k)
    show ?case
      using sphericalInterpolation_step [OF conjunct1 [OF Suc.IH] target t] Suc.IH
      by (simp add: mult.assoc)
  qed
  have unit: "qdot r r = 1" and angle: "qangle r target = (1 - t) ^ n * qangle q target"
    using both [of n] by (simp_all add: r_def)
  let ?th = "qangle q target"
  have range: "0 \<le> ?th" "?th \<le> pi / 2"
    by (rule qangle_range)+
  have "qangle q r + qangle r target = ?th"
  proof (cases "sin ?th = 0")
    case True
    have stay: "(?step ^^ k) q = q" for k
      by (induction k) (simp_all add: sphericalInterpolation_def Let_def True)
    have "?th = 0"
    proof (rule ccontr)
      assume "?th \<noteq> 0"
      then have "0 < ?th" "?th < pi"
        using range pi_gt_zero by linarith+
      then have "0 < sin ?th"
        by (rule sin_gt_zero)
      then show False using True by simp
    qed
    then show ?thesis
      using q by (simp add: r_def stay qangle_self)
  next
    case False
    define a where "a = (if qdot q target < 0 then qneg target else target)"
    define e where "e = qcombine (1 / sin ?th) q (- cos ?th / sin ?th) a"
    note frame = arcPoint_frame [OF q target False, folded a_def, folded e_def]
    have cos_theta: "cos ?th = \<bar>qdot q target\<bar>"
      by (rule cos_qangle [OF q target])
    have side: "a = target \<or> (a = qneg target \<and> ?th < pi / 2)"
    proof (cases "qdot q target < 0")
      case True
      then have positive: "0 < cos ?th"
        by (simp add: cos_theta)
      have "?th \<noteq> pi / 2"
      proof
        assume h: "?th = pi / 2"
        have "cos ?th = cos (pi / 2)"
          by (simp only: h)
        then have "cos ?th = 0"
          by (simp only: cos_pi_half)
        then show False using positive by simp
      qed
      then have "?th < pi / 2"
        using range by linarith
      then show ?thesis
        using True by (simp add: a_def)
    next
      case False
      then show ?thesis by (simp add: a_def)
    qed
    let ?phi = "(1 - t) ^ n * ?th"
    have f: "0 \<le> (1 - t) ^ n" "(1 - t) ^ n \<le> 1"
      using t by (simp_all add: power_le_one)
    have lo: "0 \<le> ?phi"
      using f range by simp
    have le: "?phi \<le> ?th"
      using f range mult_right_mono [of "(1 - t) ^ n" 1 ?th] by simp
    have r: "r = arcPoint a e ?phi"
      unfolding r_def
      using funpow_arcPoint [OF frame(1-3) side range t, of n] frame(4) by simp
    have "qdot q r = cos (?th - ?phi)"
      using arcPoint_dot(1) [OF frame(1-3), of ?th ?phi] frame(4) by (simp add: r)
    moreover have "0 \<le> cos (?th - ?phi)"
      using le lo range by (intro cos_ge_zero) linarith+
    ultimately have "qangle q r = arccos (cos (?th - ?phi))"
      by (simp add: qangle_def min_absorb2)
    also have "\<dots> = ?th - ?phi"
      using le lo range pi_gt_zero by (intro arccos_cos) linarith+
    finally show ?thesis
      using angle by simp
  qed
  then show "qdot ((?step ^^ n) q) ((?step ^^ n) q) = 1"
    and "qangle ((?step ^^ n) q) target = (1 - t) ^ n * qangle q target"
    and "qangle q ((?step ^^ n) q) + qangle ((?step ^^ n) q) target = qangle q target"
    using unit angle by (simp_all add: r_def)
qed

section \<open>3D overlay: smoothing towards a fixed target\<close>

lemma vec3_lerp_error:
  "v_x (vec3_lerp v target alpha) - v_x target = (1 - alpha) * (v_x v - v_x target)"
  "v_y (vec3_lerp v target alpha) - v_y target = (1 - alpha) * (v_y v - v_y target)"
  "v_z (vec3_lerp v target alpha) - v_z target = (1 - alpha) * (v_z v - v_z target)"
  by (simp_all add: vec3_lerp_def algebra_simps)

text \<open>An error vector scaled by \<open>k \<ge> 0\<close> has its length scaled by \<open>k\<close>.\<close>

lemma vdist_scaled:
  assumes "0 \<le> k"
    and "v_x a' - v_x b = k * (v_x a - v_x b)"
    and "v_y a' - v_y b = k * (v_y a - v_y b)"
    and "v_z a' - v_z b = k * (v_z a - v_z b)"
  shows "vdist a' b = k * vdist a b"
proof -
  have "(v_x a' - v_x b)\<^sup>2 + (v_y a' - v_y b)\<^sup>2 + (v_z a' - v_z b)\<^sup>2
      = k\<^sup>2 * ((v_x a - v_x b)\<^sup>2 + (v_y a - v_y b)\<^sup>2 + (v_z a - v_z b)\<^sup>2)"
    by (simp only: assms(2-4) power_mult_distrib distrib_left)
  then show ?thesis
    using assms(1) by (simp add: vdist_def real_sqrt_mult)
qed

lemma vdist_nonneg: "0 \<le> vdist a b"
  by (simp add: vdist_def)

lemma exp_decay_below:
  assumes "0 < c" "0 < eps" "0 < d" "ln (d / eps) / c \<le> real n"
  shows "exp (- c * real n) * d \<le> eps"
proof -
  have "ln (d / eps) \<le> c * real n"
    using assms(1,4) by (simp add: pos_divide_le_eq mult.commute)
  then have "d / eps \<le> exp (c * real n)"
    using assms(2,3) by (metis divide_pos_pos exp_le_cancel_iff exp_ln)
  then have "d \<le> exp (c * real n) * eps"
    using assms(2) by (simp add: pos_divide_le_eq)
  then have "exp (- c * real n) * d \<le> exp (- c * real n) * (exp (c * real n) * eps)"
    by (intro mult_left_mono) simp_all
  also have "\<dots> = eps"
    by (simp add: exp_minus)
  finally show ?thesis .
qed

lemma exp_power_real: "exp (- c * d) ^ n = exp (- c * d * real n)"
  by (simp add: exp_of_nat_mult [symmetric] mult.commute)

text \<open>A call that does not return early runs the smoothing steps on the box it works with.\<close>

lemma useFrame_frame:
  assumes "frameDrawn p t st" "frameFaceBox p t st = Some b"
  shows "\<exists>st1. useFrame lib p t st =
            applyBlendshapes (tk_snapshot t) (smoothRotation lib p t (smoothPlacement p t b st1))
         \<and> groupRef st1 = groupRef st
         \<and> smoothPositionRef st1 = smoothPositionRef st \<and> hasPositionRef st1 = hasPositionRef st
         \<and> smoothQuatRef st1 = smoothQuatRef st \<and> hasRotationRef st1 = hasRotationRef st"
proof (cases "latestFaceBox p (tk_frame t) (tk_snapshot t)")
  case None
  have "heldFaceBox None (tk_now t) st = Some b"
    using assms(2) None by (simp add: frameFaceBox_def)
  then have "useFrame lib p t st =
      applyBlendshapes (tk_snapshot t) (smoothRotation lib p t (smoothPlacement p t b st))"
    using assms(1) None by (auto simp: useFrame_def Let_def frameDrawn_def)
  then show ?thesis by blast
next
  case (Some b')
  have b: "b' = b"
    using assms(2) Some by (simp add: frameFaceBox_def)
  let ?st1 = "st\<lparr>lastFaceBoxRef := Some b, lastFaceBoxTimeRef := tk_now t\<rparr>"
  have "useFrame lib p t st =
      applyBlendshapes (tk_snapshot t) (smoothRotation lib p t (smoothPlacement p t b ?st1))"
    using assms(1) Some b by (auto simp: useFrame_def Let_def frameDrawn_def heldFaceBox_def)
  then show ?thesis
    by (intro exI [of _ ?st1]) simp
qed

lemma smoothPlacement_position:
  "smoothPositionRef (smoothPlacement p t b st) =
     (if hasPositionRef st
      then vec3_lerp (smoothPositionRef st) (targetPos t b)
             (1 - exp (- positionSmoothing * tk_delta t))
      else targetPos t b)"
  "hasPositionRef (smoothPlacement p t b st)"
  by (simp_all add: smoothPlacement_def Let_def)

lemma smoothPlacement_group:
  "groupRef st \<noteq> None \<Longrightarrow> groupRef (smoothPlacement p t b st) \<noteq> None"
  by (auto simp: smoothPlacement_def Let_def)

lemma smoothRotation_group:
  "groupRef st \<noteq> None \<Longrightarrow> groupRef (smoothRotation lib p t st) \<noteq> None"
  by (auto simp: smoothRotation_def Let_def split: option.splits)

lemma smoothRotation_position:
  "smoothPositionRef (smoothRotation lib p t st) = smoothPositionRef st"
  "hasPositionRef (smoothRotation lib p t st) = hasPositionRef st"
  by (simp_all add: smoothRotation_def Let_def split: option.splits)

lemma smoothRotation_valid:
  assumes "tk_snapshot t = Some s" "snap_matrix s = Some m" "hasValidMatrix (Some m)"
  shows "smoothQuatRef (smoothRotation lib p t st) =
     (if hasRotationRef st
      then slerp lib (smoothQuatRef st) (rotationTarget lib p m)
             (1 - exp (- rotationSmoothing * tk_delta t))
      else rotationTarget lib p m)"
    and "hasRotationRef (smoothRotation lib p t st)"
  using assms by (simp_all add: smoothRotation_def Let_def)

text \<open>What a call with a target position does to the smoothed position.\<close>

lemma useFrame_position:
  assumes "framePosition p t st = Some T"
  shows "smoothPositionRef (useFrame lib p t st) =
     (if hasPositionRef st
      then vec3_lerp (smoothPositionRef st) T (1 - exp (- positionSmoothing * tk_delta t))
      else T)"
    and "hasPositionRef (useFrame lib p t st)"
    and "groupRef (useFrame lib p t st) \<noteq> None"
proof -
  have drawn: "frameDrawn p t st"
    using assms by (simp add: framePosition_def split: if_splits)
  then obtain b where b: "frameFaceBox p t st = Some b" and T: "targetPos t b = T"
    using assms by (auto simp: framePosition_def)
  obtain st1 where frame: "useFrame lib p t st =
      applyBlendshapes (tk_snapshot t) (smoothRotation lib p t (smoothPlacement p t b st1))"
    and same: "groupRef st1 = groupRef st" "smoothPositionRef st1 = smoothPositionRef st"
      "hasPositionRef st1 = hasPositionRef st"
    using useFrame_frame [OF drawn b, of lib] by blast
  show "smoothPositionRef (useFrame lib p t st) =
     (if hasPositionRef st
      then vec3_lerp (smoothPositionRef st) T (1 - exp (- positionSmoothing * tk_delta t))
      else T)"
    by (simp add: frame applyBlendshapes_keeps smoothRotation_position smoothPlacement_position
        same T)
  show "hasPositionRef (useFrame lib p t st)"
    by (simp add: frame applyBlendshapes_keeps smoothRotation_position smoothPlacement_position)
  have "groupRef st1 \<noteq> None"
    using drawn by (simp add: same frameDrawn_def)
  then have "groupRef (smoothRotation lib p t (smoothPlacement p t b st1)) \<noteq> None"
    by (intro smoothRotation_group smoothPlacement_group)
  then show "groupRef (useFrame lib p t st) \<noteq> None"
    by (simp add: frame applyBlendshapes_keeps)
qed

text \<open>What a call with a target rotation does to the smoothed rotation.\<close>

lemma useFrame_rotation:
  assumes "frameRotation lib p t st = Some Q"
  shows "smoothQuatRef (useFrame lib p t st) =
     (if hasRotationRef st
      then slerp lib (smoothQuatRef st) Q (1 - exp (- rotationSmoothing * tk_delta t))
      else Q)"
    and "hasRotationRef (useFrame lib p t st)"
proof -
  have drawn: "frameDrawn p t st"
    using assms by (simp add: frameRotation_def split: if_splits)
  then obtain s m where matrix: "tk_snapshot t = Some s" "snap_matrix s = Some m"
      "hasValidMatrix (Some m)" and Q: "rotationTarget lib p m = Q"
    using assms by (auto simp: frameRotation_def split: option.splits if_splits)
  obtain b where b: "frameFaceBox p t st = Some b"
    using drawn by (auto simp: frameDrawn_def)
  obtain st1 where frame: "useFrame lib p t st =
      applyBlendshapes (tk_snapshot t) (smoothRotation lib p t (smoothPlacement p t b st1))"
    and same: "smoothQuatRef st1 = smoothQuatRef st" "hasRotationRef st1 = hasRotationRef st"
    using useFrame_frame [OF drawn b, of lib] by blast
  show "smoothQuatRef (useFrame lib p t st) =
     (if hasRotationRef st
      then slerp lib (smoothQuatRef st) Q (1 - exp (- rotationSmoothing * tk_delta t))
      else Q)"
    by (simp add: frame applyBlendshapes_keeps smoothRotation_valid [OF matrix]
        smoothPlacement_keeps same Q)
  show "hasRotationRef (useFrame lib p t st)"
    by (simp add: frame applyBlendshapes_keeps smoothRotation_valid [OF matrix])
qed

text \<open>
  One call with the target position \<open>T\<close>: the position error is scaled by some \<open>k\<close> between
  0 and \<open>exp (- 12 * delta)\<close>.
\<close>

lemma useFrame_position_step:
  assumes "framePosition p t st = Some T" "0 < tk_delta t"
  shows "\<exists>k. 0 \<le> k \<and> k \<le> exp (- positionSmoothing * tk_delta t)
           \<and> v_x (smoothPositionRef (useFrame lib p t st)) - v_x T
               = k * (v_x (smoothPositionRef st) - v_x T)
           \<and> v_y (smoothPositionRef (useFrame lib p t st)) - v_y T
               = k * (v_y (smoothPositionRef st) - v_y T)
           \<and> v_z (smoothPositionRef (useFrame lib p t st)) - v_z T
               = k * (v_z (smoothPositionRef st) - v_z T)"
proof (cases "hasPositionRef st")
  case True
  show ?thesis
    using True
    by (intro exI [of _ "exp (- positionSmoothing * tk_delta t)"])
      (simp add: useFrame_position(1) [OF assms(1)] vec3_lerp_error)
next
  case False
  show ?thesis
    using False by (intro exI [of _ 0]) (simp add: useFrame_position(1) [OF assms(1)])
qed

lemma positionRun_contracts:
  assumes "0 < delta" "positionRun lib p delta T tks st"
  shows "\<exists>k. 0 \<le> k \<and> k \<le> exp (- positionSmoothing * delta) ^ length tks
           \<and> v_x (smoothPositionRef (runTicks lib p tks st)) - v_x T
               = k * (v_x (smoothPositionRef st) - v_x T)
           \<and> v_y (smoothPositionRef (runTicks lib p tks st)) - v_y T
               = k * (v_y (smoothPositionRef st) - v_y T)
           \<and> v_z (smoothPositionRef (runTicks lib p tks st)) - v_z T
               = k * (v_z (smoothPositionRef st) - v_z T)"
  using assms(2)
proof (induction tks arbitrary: st)
  case Nil
  show ?case
    by (simp add: exI [of _ 1])
next
  case (Cons t tks)
  let ?c = "exp (- positionSmoothing * delta)"
  let ?st1 = "useFrame lib p t st"
  let ?st2 = "runTicks lib p tks ?st1"
  have dt: "tk_delta t = delta" and here: "framePosition p t st = Some T"
    and rest: "positionRun lib p delta T tks ?st1"
    using Cons.prems by simp_all
  obtain k1 where k1: "0 \<le> k1" "k1 \<le> ?c"
      "v_x (smoothPositionRef ?st1) - v_x T = k1 * (v_x (smoothPositionRef st) - v_x T)"
      "v_y (smoothPositionRef ?st1) - v_y T = k1 * (v_y (smoothPositionRef st) - v_y T)"
      "v_z (smoothPositionRef ?st1) - v_z T = k1 * (v_z (smoothPositionRef st) - v_z T)"
    using useFrame_position_step [OF here, of lib] assms(1) dt by auto
  obtain k2 where k2: "0 \<le> k2" "k2 \<le> ?c ^ length tks"
      "v_x (smoothPositionRef ?st2) - v_x T = k2 * (v_x (smoothPositionRef ?st1) - v_x T)"
      "v_y (smoothPositionRef ?st2) - v_y T = k2 * (v_y (smoothPositionRef ?st1) - v_y T)"
      "v_z (smoothPositionRef ?st2) - v_z T = k2 * (v_z (smoothPositionRef ?st1) - v_z T)"
    using Cons.IH [OF rest] by blast
  have k: "0 \<le> k2 * k1" "k2 * k1 \<le> ?c ^ length (t # tks)"
  proof -
    show "0 \<le> k2 * k1"
      using k1(1) k2(1) by simp
    have "k2 * k1 \<le> ?c ^ length tks * ?c"
      using k1(1,2) k2(1,2) by (intro mult_mono) simp_all
    then show "k2 * k1 \<le> ?c ^ length (t # tks)"
      by (simp add: mult.commute)
  qed
  have errs: "v_x (smoothPositionRef ?st2) - v_x T = k2 * k1 * (v_x (smoothPositionRef st) - v_x T)"
      "v_y (smoothPositionRef ?st2) - v_y T = k2 * k1 * (v_y (smoothPositionRef st) - v_y T)"
      "v_z (smoothPositionRef ?st2) - v_z T = k2 * k1 * (v_z (smoothPositionRef st) - v_z T)"
    by (simp_all only: k2(3-5) k1(3-5) mult.assoc)
  have run: "runTicks lib p (t # tks) st = ?st2"
    by simp
  show ?case
    unfolding run using k errs by blast
qed

text \<open>
  A run of calls with the target rotation \<open>Q\<close>, once the rotation has been set: the smoothed
  rotation is the start interpolated towards \<open>Q\<close> once per call, with the factor
  \<open>1 - exp (- 12 * delta)\<close>.
\<close>

lemma rotationRun_quat:
  assumes lib: "slerp lib = sphericalInterpolation"
    and run: "rotationRun lib p delta Q tks st" and has: "hasRotationRef st"
  shows "smoothQuatRef (runTicks lib p tks st) =
     ((\<lambda>q. sphericalInterpolation q Q (1 - exp (- rotationSmoothing * delta))) ^^ length tks)
       (smoothQuatRef st)"
  using run has
proof (induction tks arbitrary: st)
  case Nil
  show ?case by simp
next
  case (Cons t tks)
  let ?step = "\<lambda>q. sphericalInterpolation q Q (1 - exp (- rotationSmoothing * delta))"
  let ?st1 = "useFrame lib p t st"
  have dt: "tk_delta t = delta" and here: "frameRotation lib p t st = Some Q"
    and rest: "rotationRun lib p delta Q tks ?st1"
    using Cons.prems(1) by simp_all
  have first: "smoothQuatRef ?st1 = ?step (smoothQuatRef st)"
    using Cons.prems(2) by (simp add: useFrame_rotation(1) [OF here] lib dt)
  have has1: "hasRotationRef ?st1"
    by (rule useFrame_rotation(2) [OF here])
  have "smoothQuatRef (runTicks lib p (t # tks) st) = (?step ^^ length tks) (?step (smoothQuatRef st))"
    using Cons.IH [OF rest has1] by (simp add: first)
  also have "\<dots> = (?step ^^ length (t # tks)) (smoothQuatRef st)"
    using funpow_swap1 [of ?step "length tks" "smoothQuatRef st"] by simp
  finally show ?case .
qed

lemma funpow_sphericalInterpolation_self:
  assumes "qdot Q Q = 1"
  shows "((\<lambda>q. sphericalInterpolation q Q t) ^^ n) Q = Q"
proof (induction n)
  case 0
  show ?case by simp
next
  case (Suc n)
  have "sphericalInterpolation Q Q t = Q"
    by (simp add: sphericalInterpolation_def Let_def qangle_self [OF assms])
  then show ?case
    using Suc.IH by simp
qed

text \<open>
  The rotation after a run of calls with the target rotation \<open>Q\<close>: a unit quaternion, at an
  angle to \<open>Q\<close> of at most \<open>exp (- 12 * delta) ^ n\<close> times the angle at the start, on the arc
  between the start and \<open>Q\<close>.
\<close>

lemma rotationRun_contracts:
  assumes lib: "slerp lib = sphericalInterpolation"
    and unit: "qdot (smoothQuatRef st) (smoothQuatRef st) = 1" and target: "qdot Q Q = 1"
    and delta: "0 < delta"
    and run: "rotationRun lib p delta Q tks st"
  shows "qdot (smoothQuatRef (runTicks lib p tks st)) (smoothQuatRef (runTicks lib p tks st)) = 1"
    and "qangle (smoothQuatRef (runTicks lib p tks st)) Q
           \<le> exp (- rotationSmoothing * delta) ^ length tks * qangle (smoothQuatRef st) Q"
    and "qangle (smoothQuatRef st) (smoothQuatRef (runTicks lib p tks st))
           + qangle (smoothQuatRef (runTicks lib p tks st)) Q
         = qangle (smoothQuatRef st) Q"
proof -
  let ?c = "exp (- rotationSmoothing * delta)"
  let ?step = "\<lambda>q. sphericalInterpolation q Q (1 - ?c)"
  let ?q = "smoothQuatRef st"
  let ?r = "smoothQuatRef (runTicks lib p tks st)"
  have c: "0 < ?c" "?c < 1"
    using delta by (simp_all add: rotationSmoothing_def)
  have t: "0 \<le> 1 - ?c" "1 - ?c \<le> 1"
    using c by simp_all
  have "qdot ?r ?r = 1 \<and> qangle ?r Q \<le> ?c ^ length tks * qangle ?q Q
      \<and> qangle ?q ?r + qangle ?r Q = qangle ?q Q"
  proof (cases "hasRotationRef st")
    case True
    have r: "?r = (?step ^^ length tks) ?q"
      by (rule rotationRun_quat [OF lib run True])
    show ?thesis
      using funpow_sphericalInterpolation [OF unit target t, of "length tks"] by (simp add: r)
  next
    case False
    show ?thesis
    proof (cases tks)
      case Nil
      then show ?thesis
        using unit by (simp add: qangle_self)
    next
      case (Cons t rest)
      let ?st1 = "useFrame lib p t st"
      have here: "frameRotation lib p t st = Some Q"
        and more: "rotationRun lib p delta Q rest ?st1"
        using run Cons by simp_all
      have first: "smoothQuatRef ?st1 = Q"
        using False by (simp add: useFrame_rotation(1) [OF here])
      have has1: "hasRotationRef ?st1"
        by (rule useFrame_rotation(2) [OF here])
      have "?r = (?step ^^ length rest) Q"
        using rotationRun_quat [OF lib more has1] by (simp add: Cons first)
      then have r: "?r = Q"
        by (simp add: funpow_sphericalInterpolation_self [OF target])
      have "0 \<le> ?c ^ length tks * qangle ?q Q"
        using c qangle_range(1) [of ?q Q] by simp
      then show ?thesis
        using target by (simp add: r qangle_self)
    qed
  qed
  then show "qdot ?r ?r = 1" and "qangle ?r Q \<le> ?c ^ length tks * qangle ?q Q"
    and "qangle ?q ?r + qangle ?r Q = qangle ?q Q"
    by simp_all
qed

text \<open>One more call with the target rotation \<open>Q\<close> moves the rotation along the arc to \<open>Q\<close>.\<close>

lemma useFrame_rotation_step:
  assumes lib: "slerp lib = sphericalInterpolation"
    and unit: "qdot (smoothQuatRef st) (smoothQuatRef st) = 1" and target: "qdot Q Q = 1"
    and delta: "0 < tk_delta t"
    and here: "frameRotation lib p t st = Some Q"
  shows "qangle (smoothQuatRef (useFrame lib p t st)) Q \<le> qangle (smoothQuatRef st) Q"
    and "qangle (smoothQuatRef st) (smoothQuatRef (useFrame lib p t st))
           + qangle (smoothQuatRef (useFrame lib p t st)) Q
         = qangle (smoothQuatRef st) Q"
proof -
  let ?c = "exp (- rotationSmoothing * tk_delta t)"
  let ?q = "smoothQuatRef st"
  let ?r = "smoothQuatRef (useFrame lib p t st)"
  have c: "0 < ?c" "?c < 1"
    using delta by (simp_all add: rotationSmoothing_def)
  have t: "0 \<le> 1 - ?c" "1 - ?c \<le> 1"
    using c by simp_all
  have "qangle ?r Q \<le> qangle ?q Q \<and> qangle ?q ?r + qangle ?r Q = qangle ?q Q"
  proof (cases "hasRotationRef st")
    case True
    have r: "?r = sphericalInterpolation ?q Q (1 - ?c)"
      using True by (simp add: useFrame_rotation(1) [OF here] lib)
    have "qangle ?r Q = ?c * qangle ?q Q"
      using sphericalInterpolation_step(2) [OF unit target t] by (simp add: r)
    also have "\<dots> \<le> 1 * qangle ?q Q"
      using c(2) qangle_range(1) [of ?q Q] by (intro mult_right_mono) simp_all
    finally have "qangle ?r Q \<le> qangle ?q Q"
      by simp
    moreover have "qangle ?q ?r + qangle ?r Q = qangle ?q Q"
      using funpow_sphericalInterpolation(3) [OF unit target t, of 1] by (simp add: r)
    ultimately show ?thesis by simp
  next
    case False
    have r: "?r = Q"
      using False by (simp add: useFrame_rotation(1) [OF here])
    show ?thesis
      using qangle_range(1) [of ?q Q] by (simp add: r qangle_self [OF target])
  qed
  then show "qangle ?r Q \<le> qangle ?q Q" and "qangle ?q ?r + qangle ?r Q = qangle ?q Q"
    by simp_all
qed

text \<open>What is sufficient for a call to have the target position of a face box \<open>b\<close>.\<close>

lemma framePosition_latest:
  assumes "av_enabled p" "groupRef st \<noteq> None"
    and "latestFaceBox p (tk_frame t) (tk_snapshot t) = Some b"
  shows "framePosition p t st = Some (targetPos t b)"
proof -
  have "fs_width (tk_frame t) \<noteq> 0" "fs_height (tk_frame t) \<noteq> 0"
    using assms(3) by (auto simp: latestFaceBox_def split: option.splits if_splits)
  then show ?thesis
    using assms by (simp add: framePosition_def frameDrawn_def frameFaceBox_def)
qed

lemma framePosition_held:
  assumes "av_enabled p" "groupRef st \<noteq> None"
    and "fs_width (tk_frame t) \<noteq> 0" "fs_height (tk_frame t) \<noteq> 0"
    and "latestFaceBox p (tk_frame t) (tk_snapshot t) = None"
    and "lastFaceBoxRef st = Some b" "tk_now t - lastFaceBoxTimeRef st < faceBoxHoldMs"
  shows "framePosition p t st = Some (targetPos t b)"
  using assms by (simp add: framePosition_def frameDrawn_def frameFaceBox_def heldFaceBox_def)

text \<open>A call that derives a face box and places the group leaves that box as the last known one.\<close>

lemma useFrame_lastFaceBox:
  assumes "av_enabled p" "groupRef st \<noteq> None"
    and "latestFaceBox p (tk_frame t) (tk_snapshot t) = Some b"
  shows "lastFaceBoxRef (useFrame lib p t st) = Some b"
    and "lastFaceBoxTimeRef (useFrame lib p t st) = tk_now t"
proof -
  have size: "fs_width (tk_frame t) \<noteq> 0" "fs_height (tk_frame t) \<noteq> 0"
    using assms(3) by (auto simp: latestFaceBox_def split: option.splits if_splits)
  have keeps: "lastFaceBoxRef (smoothRotation lib p t (smoothPlacement p t b s)) = lastFaceBoxRef s"
    "lastFaceBoxTimeRef (smoothRotation lib p t (smoothPlacement p t b s)) = lastFaceBoxTimeRef s"
    for s
    by (simp_all add: smoothRotation_def smoothPlacement_def Let_def split: option.splits)
  show "lastFaceBoxRef (useFrame lib p t st) = Some b"
    and "lastFaceBoxTimeRef (useFrame lib p t st) = tk_now t"
    using assms size
    by (auto simp: useFrame_def Let_def heldFaceBox_def applyBlendshapes_keeps keeps)
qed

text \<open>
  Sufficient for a run with the target rotation \<open>Q\<close>: the overlay is enabled and mounted, and
  every call derives a face box and has a valid matrix with the rotation \<open>Q\<close>.
\<close>

lemma rotationRun_latest:
  assumes "av_enabled p"
    and "\<forall>t \<in> set tks. tk_delta t = delta
           \<and> latestFaceBox p (tk_frame t) (tk_snapshot t) \<noteq> None
           \<and> (\<exists>s m. tk_snapshot t = Some s \<and> snap_matrix s = Some m
                  \<and> hasValidMatrix (Some m) \<and> rotationTarget lib p m = Q)"
    and "groupRef st \<noteq> None"
  shows "rotationRun lib p delta Q tks st"
  using assms(2,3)
proof (induction tks arbitrary: st)
  case Nil
  show ?case by simp
next
  case (Cons t tks)
  obtain b s m where dt: "tk_delta t = delta"
    and b: "latestFaceBox p (tk_frame t) (tk_snapshot t) = Some b"
    and matrix: "tk_snapshot t = Some s" "snap_matrix s = Some m" "hasValidMatrix (Some m)"
      "rotationTarget lib p m = Q"
    using Cons.prems(1) by auto
  have size: "fs_width (tk_frame t) \<noteq> 0" "fs_height (tk_frame t) \<noteq> 0"
    using b by (auto simp: latestFaceBox_def split: option.splits if_splits)
  have drawn: "frameDrawn p t st"
    using assms(1) Cons.prems(2) b size by (simp add: frameDrawn_def frameFaceBox_def)
  have pos: "framePosition p t st = Some (targetPos t b)"
    using drawn b by (simp add: framePosition_def frameFaceBox_def)
  have here: "frameRotation lib p t st = Some Q"
    using drawn matrix by (simp add: frameRotation_def)
  have "rotationRun lib p delta Q tks (useFrame lib p t st)"
    using Cons.prems(1) by (intro Cons.IH useFrame_position(3) [OF pos]) simp
  then show ?case
    using dt here by simp
qed

text \<open>
  Claim C7. Take a run of calls of the frame callback with one positive \<open>delta\<close> in which
  every call is drawn with the same target position \<open>T\<close>, whatever snapshot or held face box the
  target comes from and whether or not the frame has a valid matrix. Then the distance of the
  smoothed position to \<open>T\<close> after the \<open>n\<close> calls is at most \<open>exp (- 12 * delta * n)\<close> times the
  distance before them; the position never overshoots: its error after the calls is the error
  before them scaled by a factor between 0 and 1; one more such call does not increase the
  distance; and the distance is at most a given \<open>eps\<close> once \<open>n\<close> has reached
  \<open>ln (d / eps) / (12 * delta)\<close>, with \<open>d\<close> the distance at the start.
  Likewise take a run in which every call is drawn with a valid matrix and the same target
  rotation \<open>Q\<close>, the rotations being unit quaternions and \<open>slerp\<close> the spherical interpolation.
  Then the angle of the smoothed rotation to \<open>Q\<close> after the \<open>n\<close> calls is at most
  \<open>exp (- 12 * delta * n)\<close> times the angle before them; the rotation never overshoots: it lies
  on the arc from the start to \<open>Q\<close>, the angle from the start to it and the angle from it to
  \<open>Q\<close> adding up to the angle from the start to \<open>Q\<close>; one more such call does not increase the
  angle and again stays on the arc; and the angle is at most \<open>eps\<close> once \<open>n\<close> has reached
  \<open>ln (a / eps) / (12 * delta)\<close>, with \<open>a\<close> the angle at the start.
\<close>

theorem smoothing_converges:
  assumes delta: "0 < delta"
  shows "(positionRun lib p delta T tks st \<longrightarrow>
            vdist (smoothPositionRef (runTicks lib p tks st)) T
              \<le> exp (- positionSmoothing * delta * real (length tks))
                  * vdist (smoothPositionRef st) T
          \<and> (\<exists>k. 0 \<le> k \<and> k \<le> 1
                \<and> v_x (smoothPositionRef (runTicks lib p tks st)) - v_x T
                    = k * (v_x (smoothPositionRef st) - v_x T)
                \<and> v_y (smoothPositionRef (runTicks lib p tks st)) - v_y T
                    = k * (v_y (smoothPositionRef st) - v_y T)
                \<and> v_z (smoothPositionRef (runTicks lib p tks st)) - v_z T
                    = k * (v_z (smoothPositionRef st) - v_z T))
          \<and> (tk_delta t = delta \<and> framePosition p t (runTicks lib p tks st) = Some T \<longrightarrow>
                vdist (smoothPositionRef (useFrame lib p t (runTicks lib p tks st))) T
                  \<le> vdist (smoothPositionRef (runTicks lib p tks st)) T)
          \<and> (0 < eps \<and> 0 < vdist (smoothPositionRef st) T
                \<and> ln (vdist (smoothPositionRef st) T / eps) / (positionSmoothing * delta)
                    \<le> real (length tks)
              \<longrightarrow> vdist (smoothPositionRef (runTicks lib p tks st)) T \<le> eps))
       \<and> (slerp lib = sphericalInterpolation
            \<and> qdot (smoothQuatRef st) (smoothQuatRef st) = 1 \<and> qdot Q Q = 1
            \<and> rotationRun lib p delta Q tks st \<longrightarrow>
            qangle (smoothQuatRef (runTicks lib p tks st)) Q
              \<le> exp (- rotationSmoothing * delta * real (length tks))
                  * qangle (smoothQuatRef st) Q
          \<and> qangle (smoothQuatRef st) (smoothQuatRef (runTicks lib p tks st))
              + qangle (smoothQuatRef (runTicks lib p tks st)) Q
              = qangle (smoothQuatRef st) Q
          \<and> (tk_delta t = delta \<and> frameRotation lib p t (runTicks lib p tks st) = Some Q \<longrightarrow>
                qangle (smoothQuatRef (useFrame lib p t (runTicks lib p tks st))) Q
                  \<le> qangle (smoothQuatRef (runTicks lib p tks st)) Q
              \<and> qangle (smoothQuatRef (runTicks lib p tks st))
                    (smoothQuatRef (useFrame lib p t (runTicks lib p tks st)))
                  + qangle (smoothQuatRef (useFrame lib p t (runTicks lib p tks st))) Q
                  = qangle (smoothQuatRef (runTicks lib p tks st)) Q)
          \<and> (0 < eps \<and> 0 < qangle (smoothQuatRef st) Q
                \<and> ln (qangle (smoothQuatRef st) Q / eps) / (rotationSmoothing * delta)
                    \<le> real (length tks)
              \<longrightarrow> qangle (smoothQuatRef (runTicks lib p tks st)) Q \<le> eps))"
proof -
  let ?cp = "exp (- positionSmoothing * delta)"
  let ?st = "runTicks lib p tks st"
  let ?n = "length tks"
  let ?d0 = "vdist (smoothPositionRef st) T"
  let ?a0 = "qangle (smoothQuatRef st) Q"
  have cp: "0 < ?cp" "?cp < 1"
    using delta by (simp_all add: positionSmoothing_def)
  have rates: "0 < positionSmoothing * delta" "0 < rotationSmoothing * delta"
    using delta by (simp_all add: positionSmoothing_def rotationSmoothing_def)
  have position:
    "vdist (smoothPositionRef ?st) T \<le> exp (- positionSmoothing * delta * real ?n) * ?d0
     \<and> (\<exists>k. 0 \<le> k \<and> k \<le> 1
           \<and> v_x (smoothPositionRef ?st) - v_x T = k * (v_x (smoothPositionRef st) - v_x T)
           \<and> v_y (smoothPositionRef ?st) - v_y T = k * (v_y (smoothPositionRef st) - v_y T)
           \<and> v_z (smoothPositionRef ?st) - v_z T = k * (v_z (smoothPositionRef st) - v_z T))
     \<and> (tk_delta t = delta \<and> framePosition p t ?st = Some T \<longrightarrow>
          vdist (smoothPositionRef (useFrame lib p t ?st)) T \<le> vdist (smoothPositionRef ?st) T)
     \<and> (0 < eps \<and> 0 < ?d0 \<and> ln (?d0 / eps) / (positionSmoothing * delta) \<le> real ?n
        \<longrightarrow> vdist (smoothPositionRef ?st) T \<le> eps)"
    if run: "positionRun lib p delta T tks st"
  proof -
    obtain k where k: "0 \<le> k" "k \<le> ?cp ^ ?n"
        "v_x (smoothPositionRef ?st) - v_x T = k * (v_x (smoothPositionRef st) - v_x T)"
        "v_y (smoothPositionRef ?st) - v_y T = k * (v_y (smoothPositionRef st) - v_y T)"
        "v_z (smoothPositionRef ?st) - v_z T = k * (v_z (smoothPositionRef st) - v_z T)"
      using positionRun_contracts [OF delta run] by blast
    have "vdist (smoothPositionRef ?st) T = k * ?d0"
      by (rule vdist_scaled [OF k(1,3,4,5)])
    also have "\<dots> \<le> ?cp ^ ?n * ?d0"
      using k(2) by (intro mult_right_mono vdist_nonneg)
    finally have dist: "vdist (smoothPositionRef ?st) T
        \<le> exp (- positionSmoothing * delta * real ?n) * ?d0"
      by (simp only: exp_power_real)
    have "?cp ^ ?n \<le> 1"
      using cp by (intro power_le_one) simp_all
    then have k1: "k \<le> 1"
      using k(2) by linarith
    have segment: "\<exists>k. 0 \<le> k \<and> k \<le> 1
           \<and> v_x (smoothPositionRef ?st) - v_x T = k * (v_x (smoothPositionRef st) - v_x T)
           \<and> v_y (smoothPositionRef ?st) - v_y T = k * (v_y (smoothPositionRef st) - v_y T)
           \<and> v_z (smoothPositionRef ?st) - v_z T = k * (v_z (smoothPositionRef st) - v_z T)"
      using k(1,3,4,5) k1 by blast
    have mono: "vdist (smoothPositionRef (useFrame lib p t ?st)) T \<le> vdist (smoothPositionRef ?st) T"
      if more: "tk_delta t = delta \<and> framePosition p t ?st = Some T"
    proof -
      have dt: "0 < tk_delta t" and here: "framePosition p t ?st = Some T"
        using more delta by simp_all
      obtain j where j: "0 \<le> j" "j \<le> exp (- positionSmoothing * tk_delta t)"
          "v_x (smoothPositionRef (useFrame lib p t ?st)) - v_x T
             = j * (v_x (smoothPositionRef ?st) - v_x T)"
          "v_y (smoothPositionRef (useFrame lib p t ?st)) - v_y T
             = j * (v_y (smoothPositionRef ?st) - v_y T)"
          "v_z (smoothPositionRef (useFrame lib p t ?st)) - v_z T
             = j * (v_z (smoothPositionRef ?st) - v_z T)"
        using useFrame_position_step [OF here dt, of lib] by blast
      have "exp (- positionSmoothing * tk_delta t) < 1"
        using cp(2) more by simp
      then have j1: "j \<le> 1"
        using j(2) by linarith
      have "vdist (smoothPositionRef (useFrame lib p t ?st)) T = j * vdist (smoothPositionRef ?st) T"
        by (rule vdist_scaled [OF j(1,3,4,5)])
      also have "\<dots> \<le> 1 * vdist (smoothPositionRef ?st) T"
        using j1 by (intro mult_right_mono vdist_nonneg)
      finally show ?thesis
        by simp
    qed
    have below: "vdist (smoothPositionRef ?st) T \<le> eps"
      if "0 < eps \<and> 0 < ?d0 \<and> ln (?d0 / eps) / (positionSmoothing * delta) \<le> real ?n"
    proof -
      have "exp (- (positionSmoothing * delta) * real ?n) * ?d0 \<le> eps"
        using that by (intro exp_decay_below [OF rates(1)]) simp_all
      then show ?thesis
        using dist by simp
    qed
    show ?thesis
      using dist segment mono below by blast
  qed
  have rotation:
    "qangle (smoothQuatRef ?st) Q \<le> exp (- rotationSmoothing * delta * real ?n) * ?a0
     \<and> qangle (smoothQuatRef st) (smoothQuatRef ?st) + qangle (smoothQuatRef ?st) Q = ?a0
     \<and> (tk_delta t = delta \<and> frameRotation lib p t ?st = Some Q \<longrightarrow>
          qangle (smoothQuatRef (useFrame lib p t ?st)) Q \<le> qangle (smoothQuatRef ?st) Q
          \<and> qangle (smoothQuatRef ?st) (smoothQuatRef (useFrame lib p t ?st))
              + qangle (smoothQuatRef (useFrame lib p t ?st)) Q
              = qangle (smoothQuatRef ?st) Q)
     \<and> (0 < eps \<and> 0 < ?a0 \<and> ln (?a0 / eps) / (rotationSmoothing * delta) \<le> real ?n
        \<longrightarrow> qangle (smoothQuatRef ?st) Q \<le> eps)"
    if hyps: "slerp lib = sphericalInterpolation
        \<and> qdot (smoothQuatRef st) (smoothQuatRef st) = 1 \<and> qdot Q Q = 1
        \<and> rotationRun lib p delta Q tks st"
  proof -
    have lib: "slerp lib = sphericalInterpolation"
      and unit: "qdot (smoothQuatRef st) (smoothQuatRef st) = 1" and target: "qdot Q Q = 1"
      and run: "rotationRun lib p delta Q tks st"
      using hyps by simp_all
    note result = rotationRun_contracts [OF lib unit target delta run]
    have angle: "qangle (smoothQuatRef ?st) Q \<le> exp (- rotationSmoothing * delta * real ?n) * ?a0"
      using result(2) by (simp only: exp_power_real)
    have mono: "qangle (smoothQuatRef (useFrame lib p t ?st)) Q \<le> qangle (smoothQuatRef ?st) Q
          \<and> qangle (smoothQuatRef ?st) (smoothQuatRef (useFrame lib p t ?st))
              + qangle (smoothQuatRef (useFrame lib p t ?st)) Q
              = qangle (smoothQuatRef ?st) Q"
      if more: "tk_delta t = delta \<and> frameRotation lib p t ?st = Some Q"
    proof -
      have dt: "0 < tk_delta t" and here: "frameRotation lib p t ?st = Some Q"
        using more delta by simp_all
      show ?thesis
        using useFrame_rotation_step [OF lib result(1) target dt here] by simp
    qed
    have below: "qangle (smoothQuatRef ?st) Q \<le> eps"
      if "0 < eps \<and> 0 < ?a0 \<and> ln (?a0 / eps) / (rotationSmoothing * delta) \<le> real ?n"
    proof -
      have "exp (- (rotationSmoothing * delta) * real ?n) * ?a0 \<le> eps"
        using that by (intro exp_decay_below [OF rates(2)]) simp_all
      then show ?thesis
        using angle by simp
    qed
    show ?thesis
      using angle result(3) mono below by blast
  qed
  show ?thesis
    using position rotation by blast
qed

lemma sampleTick_targets:
  "tk_delta (sampleTick snapshot clock) = 1 / 60"
  "tk_now (sampleTick snapshot clock) = clock"
  "tk_snapshot (sampleTick snapshot clock) = snapshot"
  "fs_width (tk_frame (sampleTick snapshot clock)) \<noteq> 0"
  "fs_height (tk_frame (sampleTick snapshot clock)) \<noteq> 0"
  "targetPos (sampleTick (Some s) clock) b = targetPos (sampleTick None 1050) b"
  "latestFaceBox sampleAvatarProps (tk_frame (sampleTick snapshot clock)) (Some nanSnapshot)
     = Some (computeFaceBox fixtureLandmarks 640 480 avatarPadX avatarPadY avatarShiftY True)"
  "latestFaceBox sampleAvatarProps (tk_frame (sampleTick snapshot clock)) (Some validSnapshot)
     = Some (computeFaceBox fixtureLandmarks 640 480 avatarPadX avatarPadY avatarShiftY True)"
  "latestFaceBox sampleAvatarProps (tk_frame (sampleTick snapshot clock)) (Some laterSnapshot)
     = Some (computeFaceBox fixtureLandmarks 640 480 avatarPadX avatarPadY avatarShiftY True)"
  "latestFaceBox sampleAvatarProps (tk_frame (sampleTick snapshot clock)) None = None"
  by (simp_all add: latestFaceBox_def sampleAvatarProps_def sampleTick_def laterSnapshot_def
      validSnapshot_def nanSnapshot_def fixtureLandmarks_def targetPos_def)

lemma sampleTick_matrix:
  "snap_matrix validSnapshot = Some (replicate 16 (Finite 1))"
  "snap_matrix laterSnapshot = Some (replicate 16 (Finite 1))"
  "hasValidMatrix (Some (replicate 16 (Finite 1)))"
  "\<not> hasValidMatrix (snap_matrix nanSnapshot)"
  "rotationTarget identityThree sampleAvatarProps m = \<lparr>q_x = 0, q_y = 0, q_z = 0, q_w = 1\<rparr>"
  by (simp_all add: laterSnapshot_def validSnapshot_def nanSnapshot_def
      hasValidMatrix_def list_all_iff rotationTarget_def identityThree_def sampleAvatarProps_def)

lemma tiltedAvatar_facts:
  "slerp identityThree = sphericalInterpolation"
  "av_enabled sampleAvatarProps"
  "groupRef tiltedAvatar \<noteq> None"
  "qdot (smoothQuatRef tiltedAvatar) (smoothQuatRef tiltedAvatar) = 1"
  "qdot \<lparr>q_x = 0, q_y = 0, q_z = 0, q_w = 1\<rparr> \<lparr>q_x = 0, q_y = 0, q_z = 0, q_w = 1\<rparr> = 1"
  "qdot (smoothQuatRef tiltedAvatar) \<lparr>q_x = 0, q_y = 0, q_z = 0, q_w = 1\<rparr> = 0.8"
  by (simp_all add: identityThree_def sampleAvatarProps_def qdot_def tiltedAvatar_def
      turnedAvatar_def)

text \<open>
  Three calls with one target position: a detection with a non-finite matrix, a later detection
  of the same face, and a call without a detection, which works with the held face box.
\<close>

lemma sample_positionRun:
  "positionRun identityThree sampleAvatarProps (1 / 60)
     (targetPos (sampleTick None 1050)
       (computeFaceBox fixtureLandmarks 640 480 avatarPadX avatarPadY avatarShiftY True))
     [sampleTick (Some nanSnapshot) 1016, sampleTick (Some laterSnapshot) 1033,
      sampleTick None 1050]
     tiltedAvatar"
proof -
  let ?b = "computeFaceBox fixtureLandmarks 640 480 avatarPadX avatarPadY avatarShiftY True"
  let ?T = "targetPos (sampleTick None 1050) ?b"
  let ?t1 = "sampleTick (Some nanSnapshot) 1016"
  let ?t2 = "sampleTick (Some laterSnapshot) 1033"
  let ?t3 = "sampleTick None 1050"
  let ?st1 = "useFrame identityThree sampleAvatarProps ?t1 tiltedAvatar"
  let ?st2 = "useFrame identityThree sampleAvatarProps ?t2 ?st1"
  note enabled = tiltedAvatar_facts(2)
  have box1: "latestFaceBox sampleAvatarProps (tk_frame ?t1) (tk_snapshot ?t1) = Some ?b"
    and box2: "latestFaceBox sampleAvatarProps (tk_frame ?t2) (tk_snapshot ?t2) = Some ?b"
    and box3: "latestFaceBox sampleAvatarProps (tk_frame ?t3) (tk_snapshot ?t3) = None"
    by (simp_all add: sampleTick_targets)
  have pos1: "framePosition sampleAvatarProps ?t1 tiltedAvatar = Some ?T"
    using framePosition_latest [OF enabled tiltedAvatar_facts(3) box1]
    by (simp add: sampleTick_targets(6))
  have group1: "groupRef ?st1 \<noteq> None"
    by (rule useFrame_position(3) [OF pos1])
  have pos2: "framePosition sampleAvatarProps ?t2 ?st1 = Some ?T"
    using framePosition_latest [OF enabled group1 box2] by (simp add: sampleTick_targets(6))
  have group2: "groupRef ?st2 \<noteq> None"
    by (rule useFrame_position(3) [OF pos2])
  have held: "lastFaceBoxRef ?st2 = Some ?b"
    "tk_now ?t3 - lastFaceBoxTimeRef ?st2 < faceBoxHoldMs"
    by (simp_all add: useFrame_lastFaceBox [OF enabled group1 box2] sampleTick_targets(2)
        faceBoxHoldMs_def)
  have pos3: "framePosition sampleAvatarProps ?t3 ?st2 = Some ?T"
    by (rule framePosition_held [OF enabled group2 sampleTick_targets(4,5) box3 held])
  show ?thesis
    by (simp add: pos1 pos2 pos3 sampleTick_targets(1))
qed

theorem smoothing_converges_witness:
  "(0::real) < 1 / 60
   \<and> validSnapshot \<noteq> laterSnapshot
   \<and> \<not> hasValidMatrix (snap_matrix nanSnapshot)
   \<and> positionRun identityThree sampleAvatarProps (1 / 60)
        (targetPos (sampleTick None 1050)
          (computeFaceBox fixtureLandmarks 640 480 avatarPadX avatarPadY avatarShiftY True))
        [sampleTick (Some nanSnapshot) 1016, sampleTick (Some laterSnapshot) 1033,
         sampleTick None 1050]
        tiltedAvatar
   \<and> vdist (smoothPositionRef (runTicks identityThree sampleAvatarProps
          [sampleTick (Some nanSnapshot) 1016, sampleTick (Some laterSnapshot) 1033,
           sampleTick None 1050]
          tiltedAvatar))
        (targetPos (sampleTick None 1050)
          (computeFaceBox fixtureLandmarks 640 480 avatarPadX avatarPadY avatarShiftY True))
      \<le> exp (- positionSmoothing * (1 / 60)
              * real (length [sampleTick (Some nanSnapshot) 1016,
                               sampleTick (Some laterSnapshot) 1033, sampleTick None 1050]))
          * vdist (smoothPositionRef tiltedAvatar)
              (targetPos (sampleTick None 1050)
                (computeFaceBox fixtureLandmarks 640 480 avatarPadX avatarPadY avatarShiftY True))
   \<and> slerp identityThree = sphericalInterpolation
   \<and> qdot (smoothQuatRef tiltedAvatar) (smoothQuatRef tiltedAvatar) = 1
   \<and> qdot \<lparr>q_x = 0, q_y = 0, q_z = 0, q_w = 1\<rparr> \<lparr>q_x = 0, q_y = 0, q_z = 0, q_w = 1\<rparr> = 1
   \<and> qdot (smoothQuatRef tiltedAvatar) \<lparr>q_x = 0, q_y = 0, q_z = 0, q_w = 1\<rparr> = 0.8
   \<and> rotationRun identityThree sampleAvatarProps (1 / 60) \<lparr>q_x = 0, q_y = 0, q_z = 0, q_w = 1\<rparr>
        [sampleTick (Some validSnapshot) 1016, sampleTick (Some laterSnapshot) 1033,
           sampleTick (Some validSnapshot) 1050]
        tiltedAvatar
   \<and> qangle (smoothQuatRef (runTicks identityThree sampleAvatarProps
          [sampleTick (Some validSnapshot) 1016, sampleTick (Some laterSnapshot) 1033,
           sampleTick (Some validSnapshot) 1050]
          tiltedAvatar))
        \<lparr>q_x = 0, q_y = 0, q_z = 0, q_w = 1\<rparr>
      \<le> exp (- rotationSmoothing * (1 / 60)
              * real (length [sampleTick (Some validSnapshot) 1016,
                               sampleTick (Some laterSnapshot) 1033,
                               sampleTick (Some validSnapshot) 1050]))
          * qangle (smoothQuatRef tiltedAvatar) \<lparr>q_x = 0, q_y = 0, q_z = 0, q_w = 1\<rparr>
   \<and> qangle (smoothQuatRef tiltedAvatar)
        (smoothQuatRef (runTicks identityThree sampleAvatarProps
          [sampleTick (Some validSnapshot) 1016, sampleTick (Some laterSnapshot) 1033,
           sampleTick (Some validSnapshot) 1050]
          tiltedAvatar))
      + qangle (smoothQuatRef (runTicks identityThree sampleAvatarProps
          [sampleTick (Some validSnapshot) 1016, sampleTick (Some laterSnapshot) 1033,
           sampleTick (Some validSnapshot) 1050]
          tiltedAvatar))
        \<lparr>q_x = 0, q_y = 0, q_z = 0, q_w = 1\<rparr>
      = qangle (smoothQuatRef tiltedAvatar) \<lparr>q_x = 0, q_y = 0, q_z = 0, q_w = 1\<rparr>"
proof -
  let ?T = "targetPos (sampleTick None 1050)
      (computeFaceBox fixtureLandmarks 640 480 avatarPadX avatarPadY avatarShiftY True)"
  let ?Q = "\<lparr>q_x = 0, q_y = 0, q_z = 0, q_w = 1\<rparr>"
  let ?ps = "[sampleTick (Some nanSnapshot) 1016, sampleTick (Some laterSnapshot) 1033,
      sampleTick None 1050]"
  let ?rs = "[sampleTick (Some validSnapshot) 1016, sampleTick (Some laterSnapshot) 1033,
           sampleTick (Some validSnapshot) 1050]"
  have delta: "(0::real) < 1 / 60"
    by simp
  have differ: "validSnapshot \<noteq> laterSnapshot"
  proof
    assume "validSnapshot = laterSnapshot"
    then have "snap_timestamp validSnapshot = snap_timestamp laterSnapshot"
      by simp
    then show False
      by (simp add: laterSnapshot_def validSnapshot_def nanSnapshot_def)
  qed
  note prun = sample_positionRun
  have "\<forall>t \<in> set ?rs. tk_delta t = 1 / 60
      \<and> latestFaceBox sampleAvatarProps (tk_frame t) (tk_snapshot t) \<noteq> None
      \<and> (\<exists>s m. tk_snapshot t = Some s \<and> snap_matrix s = Some m \<and> hasValidMatrix (Some m)
             \<and> rotationTarget identityThree sampleAvatarProps m = ?Q)"
    by (simp add: sampleTick_targets(1,3,8,9) sampleTick_matrix)
  then have rrun: "rotationRun identityThree sampleAvatarProps (1 / 60) ?Q ?rs tiltedAvatar"
    by (rule rotationRun_latest [OF tiltedAvatar_facts(2) _ tiltedAvatar_facts(3)])
  note p = smoothing_converges [OF delta, where lib = identityThree and p = sampleAvatarProps
      and T = ?T and tks = ?ps and st = tiltedAvatar]
  note r = smoothing_converges [OF delta, where lib = identityThree and p = sampleAvatarProps
      and Q = ?Q and tks = ?rs and st = tiltedAvatar]
  have pos: "vdist (smoothPositionRef (runTicks identityThree sampleAvatarProps ?ps tiltedAvatar)) ?T
      \<le> exp (- positionSmoothing * (1 / 60) * real (length ?ps))
          * vdist (smoothPositionRef tiltedAvatar) ?T"
    using p prun by blast
  have rot: "qangle (smoothQuatRef (runTicks identityThree sampleAvatarProps ?rs tiltedAvatar)) ?Q
      \<le> exp (- rotationSmoothing * (1 / 60) * real (length ?rs))
          * qangle (smoothQuatRef tiltedAvatar) ?Q"
    "qangle (smoothQuatRef tiltedAvatar)
        (smoothQuatRef (runTicks identityThree sampleAvatarProps ?rs tiltedAvatar))
      + qangle (smoothQuatRef (runTicks identityThree sampleAvatarProps ?rs tiltedAvatar)) ?Q
      = qangle (smoothQuatRef tiltedAvatar) ?Q"
    using r rrun tiltedAvatar_facts(1,4,5) by blast+
  show ?thesis
    using delta differ sampleTick_matrix(4) prun pos tiltedAvatar_facts(1,4,5,6) rrun rot
    by (intro conjI)
qed

end
